theory Spec2Isabelle
  imports Main
begin

section \<open>Data model of the gateway (src/index.ts)\<close>

text \<open>
  JavaScript numbers that hold sizes, offsets, attempt counts and time values are modelled
  as \<open>int\<close> (subtraction may go below zero, as in the source). Strings and byte streams are
  \<open>string\<close>. A value that may be \<open>null\<close> or \<open>undefined\<close> is an \<open>option\<close>; the source only
  ever tests such values for truthiness or immediately after an assignment that cannot
  produce \<open>undefined\<close>, so one \<open>None\<close> stands for both.
\<close>

type_synonym error = string

text \<open>
  \<open>type ParsedRange = { offset: number; length: number } | { suffix: number }\<close>, with the
  fields as selectors (\<open>length\<close> is \<open>length_bytes\<close>).
\<close>

datatype ParsedRange =
  OffsetLength (offset: int) (length_bytes: int)
  | Suffix (suffix: int)

record R2HTTPMetadata =
  contentType :: "string option"
  contentLanguage :: "string option"
  contentEncoding :: "string option"
  cacheControl :: "string option"
  cacheExpiry :: "int option"

text \<open>
  An \<open>R2Object\<close> (metadata only) or \<open>R2ObjectBody\<close> (metadata and a byte stream): the
  field \<open>body_stream\<close> is \<open>None\<close> for the former. \<open>uploaded\<close> is a time value in
  milliseconds.
\<close>

record R2Object =
  size_bytes :: int
  httpEtag :: string
  uploaded :: int
  httpMetadata :: "R2HTTPMetadata option"
  body_stream :: "string option"

record R2Conditional =
  etagMatches :: "string option"
  etagDoesNotMatch :: "string option"
  uploadedBefore :: "int option"
  uploadedAfter :: "int option"

record R2GetOptions =
  onlyIf :: "R2Conditional option"
  range_opt :: "ParsedRange option"

text \<open>The two bucket operations the gateway uses: \<open>head(key)\<close> and \<open>get(key, options?)\<close>.\<close>

datatype r2_call = head_call string | get_call string "R2GetOptions option"

text \<open>A bucket promise either rejects with an error or resolves to an object or \<open>null\<close>.\<close>

datatype r2_outcome = Rejects error | Resolves "R2Object option"

record URL =
  pathname :: string
  searchParams :: "(string \<times> string) list"

text \<open>Request headers are kept with lower-case names, as \<open>Headers.get\<close> looks them up.\<close>

record Request =
  method_name :: string
  url :: URL
  headers :: "(string \<times> string) list"

text \<open>
  A response as the gateway constructs it: the status, the headers handed to the
  \<open>Response\<close> constructor and the body (\<open>None\<close> for a \<open>null\<close> or \<open>undefined\<close> body).
\<close>

record Response =
  status :: int
  headers_out :: "(string \<times> string) list"
  body :: "string option"

text \<open>
  The fields of \<open>Env\<close> that \<open>fetch\<close> and \<open>retryAsync\<close> read. The bucket is an oracle:
  its answer may depend on the call and on how many calls were issued before it, which
  covers transient failures and objects that change between calls.
\<close>

record Env =
  R2_BUCKET :: "nat \<Rightarrow> r2_call \<Rightarrow> r2_outcome"
  ALLOWED_ORIGINS :: "string option"
  CACHE_CONTROL :: "string option"
  NOTFOUND_FILE :: "string option"
  LOGGING :: "bool option"
  R2_RETRIES :: "int option"
  DATE_SUFFIX :: "int option"

datatype console_entry =
  AttemptFailed int error
  | CacheMISS URL
  | CacheHIT URL

text \<open>
  Everything outside the function that a request touches: the bucket calls issued so far,
  the delays slept by \<open>setTimeout\<close>, the console, the default cache and the cache writes
  handed to \<open>ctx.waitUntil\<close>.
\<close>

record World =
  r2_calls :: "r2_call list"
  timeouts :: "int list"
  console :: "console_entry list"
  cache_default :: "(Request \<times> Response) list"
  waitUntil :: "(Request \<times> Response) list"

section \<open>Helpers of the source\<close>

text \<open>The type guards: which of the two shapes a range has, and whether an object has a body.\<close>

fun rangeHasLength :: "ParsedRange \<Rightarrow> bool" where
  "rangeHasLength (OffsetLength off len) = True"
| "rangeHasLength (Suffix n) = False"

fun hasSuffix :: "ParsedRange \<Rightarrow> bool" where
  "hasSuffix (Suffix n) = True"
| "hasSuffix (OffsetLength off len) = False"

definition hasBody :: "R2Object \<Rightarrow> bool" where
  "hasBody object = (body_stream object \<noteq> None)"

text \<open>\<open>Number.prototype.toString\<close> on an integer: decimal digits, with a sign when negative.\<close>

function digits :: "int \<Rightarrow> string" where
  "digits n = (if n < 10 then [''0123456789'' ! nat n]
               else digits (n div 10) @ [''0123456789'' ! nat (n mod 10)])"
  by pat_completeness auto
termination
  by (relation "measure nat") auto

declare digits.simps [simp del]

definition toString :: "int \<Rightarrow> string" where
  "toString n = (if n < 0 then ''-'' @ digits (- n) else digits n)"

definition getRangeHeader :: "ParsedRange \<Rightarrow> int \<Rightarrow> string" where
  "getRangeHeader rng fileSize =
     ''bytes '' @ toString (if hasSuffix rng then fileSize - suffix rng else offset rng)
       @ ''-'' @ toString (if hasSuffix rng then fileSize - 1 else offset rng + length_bytes rng - 1)
       @ ''/'' @ toString fileSize"

section \<open>The retry wrapper\<close>

text \<open>One bucket call: it is appended to the trace and answered by the oracle.\<close>

definition bucket :: "Env \<Rightarrow> r2_call \<Rightarrow> World \<Rightarrow> (error + R2Object option) \<times> World" where
  "bucket env c w =
     (let w' = w\<lparr>r2_calls := r2_calls w @ [c]\<rparr>
      in case R2_BUCKET env (length (r2_calls w)) c of
           Rejects err \<Rightarrow> (Inl err, w')
         | Resolves v \<Rightarrow> (Inr v, w'))"

definition truthy_bool :: "bool option \<Rightarrow> bool" where
  "truthy_bool b = (b = Some True)"

definition console_log :: "Env \<Rightarrow> console_entry \<Rightarrow> World \<Rightarrow> World" where
  "console_log env e w = (if truthy_bool (LOGGING env) then w\<lparr>console := console w @ [e]\<rparr> else w)"

definition setTimeout :: "int \<Rightarrow> World \<Rightarrow> World" where
  "setTimeout delay w = w\<lparr>timeouts := timeouts w @ [delay]\<rparr>"

text \<open>\<open>Math.min(1000 * Math.pow(2, attempts - 1), 30000)\<close>, for \<open>attempts \<ge> 1\<close>.\<close>

definition backoff :: "int \<Rightarrow> int" where
  "backoff attempts = min (1000 * 2 ^ nat (attempts - 1)) 30000"

text \<open>
  The \<open>while\<close> loop of \<open>retryAsync\<close>, with the loop variable \<open>attempts\<close> as an argument.
  \<open>Inl\<close> is a thrown error.
\<close>

function retry_loop ::
  "Env \<Rightarrow> (World \<Rightarrow> (error + 'a) \<times> World) \<Rightarrow> int \<Rightarrow> int \<Rightarrow> World \<Rightarrow> (error + 'a) \<times> World" where
  "retry_loop env fn maxAttempts attempts w =
     (if maxAttempts = - 1 \<or> attempts \<le> maxAttempts then
        (case fn w of
           (Inr v, w1) \<Rightarrow> (Inr v, w1)
         | (Inl err, w1) \<Rightarrow>
             (let w2 = console_log env (AttemptFailed (attempts + 1) err) w1 in
              if attempts + 1 \<le> maxAttempts
              then retry_loop env fn maxAttempts (attempts + 1) (setTimeout (backoff (attempts + 1)) w2)
              else (Inl err, w2)))
      else (Inl ''unreachable'', w))"
  by pat_completeness auto
termination
  by (relation "measure (\<lambda>(env, fn, maxAttempts, attempts, w). nat (maxAttempts - attempts))") auto

declare retry_loop.simps [simp del]

text \<open>\<open>env.R2_RETRIES || 0\<close>: an absent or zero setting gives \<open>0\<close>.\<close>

definition maxAttempts_of :: "Env \<Rightarrow> int" where
  "maxAttempts_of env = (case R2_RETRIES env of None \<Rightarrow> 0 | Some n \<Rightarrow> n)"

definition retryAsync :: "Env \<Rightarrow> (World \<Rightarrow> (error + 'a) \<times> World) \<Rightarrow> World \<Rightarrow> (error + 'a) \<times> World" where
  "retryAsync env fn w = retry_loop env fn (maxAttempts_of env) 0 w"

section \<open>Collaborators of the runtime\<close>

text \<open>
  \<open>parseRange(size, header)\<close> of the range-parser package answers \<open>-1\<close> (malformed),
  \<open>-2\<close> (unsatisfiable) or an array of \<open>{start, end}\<close> carrying a \<open>type\<close> property.
\<close>

datatype parse_result = Malformed | Unsatisfiable | Ranges string "(int \<times> int) list"

text \<open>
  The functions the source calls but does not define are parameters: \<open>Date.parse\<close>
  (\<open>None\<close> is \<open>NaN\<close>), \<open>parseRange\<close> and \<open>Date.prototype.toUTCString\<close>.
\<close>

record Platform =
  Date_parse :: "string \<Rightarrow> int option"
  parseRange :: "int \<Rightarrow> string \<Rightarrow> parse_result"
  toUTCString :: "int \<Rightarrow> string"

text \<open>
  Modelled from the spec: the stream class \<open>FixedLengthStream\<close> is not part of the source.
  The spec (4.5) has the body stream truncated or padded to exactly the declared length;
  padding is with zero bytes here, and a negative length, which the source never passes
  for a well-formed range, gives the empty stream.
\<close>

definition FixedLengthStream :: "int \<Rightarrow> string \<Rightarrow> string" where
  "FixedLengthStream n bs = take (nat n) bs @ replicate (nat n - length bs) (CHR 0x00)"

text \<open>
  Modelled from the spec: the edge cache is not part of the source. The spec (6) gives it
  \<open>match(requestKey) -> Response|undefined\<close> and \<open>put(requestKey, response) -> void\<close>;
  it is a table keyed by the request, and the host completes the writes handed to
  \<open>waitUntil\<close> after the response was returned, the latest write winning.
\<close>

definition cache_match :: "World \<Rightarrow> Request \<Rightarrow> Response option" where
  "cache_match w request = map_of (cache_default w) request"

definition cache_put :: "Request \<Rightarrow> Response \<Rightarrow> World \<Rightarrow> World" where
  "cache_put request response w = w\<lparr>cache_default := (request, response) # cache_default w\<rparr>"

definition settle :: "World \<Rightarrow> World" where
  "settle w = (foldl (\<lambda>v (rq, rs). cache_put rq rs v) w (waitUntil w))\<lparr>waitUntil := []\<rparr>"

section \<open>JavaScript idioms used by \<open>fetch\<close>\<close>

text \<open>Truthiness of a string (absent and empty are false) and of a number (\<open>NaN\<close> and \<open>0\<close> are false).\<close>

definition truthy_str :: "string option \<Rightarrow> bool" where
  "truthy_str s = (case s of None \<Rightarrow> False | Some v \<Rightarrow> v \<noteq> [])"

definition truthy_num :: "int option \<Rightarrow> bool" where
  "truthy_num n = (case n of None \<Rightarrow> False | Some v \<Rightarrow> v \<noteq> 0)"

definition headers_get :: "Request \<Rightarrow> string \<Rightarrow> string option" where
  "headers_get request name = map_of (headers request) name"

text \<open>\<open>x || ""\<close> on a string that may be \<open>null\<close>.\<close>

definition or_empty :: "string option \<Rightarrow> string" where
  "or_empty s = (case s of None \<Rightarrow> [] | Some v \<Rightarrow> v)"

definition isWhiteSpace :: "char \<Rightarrow> bool" where
  "isWhiteSpace c = (c \<in> set [CHR 0x09, CHR 0x0A, CHR 0x0B, CHR 0x0C, CHR 0x0D, CHR 0x20, CHR 0xA0])"

definition trim :: "string \<Rightarrow> string" where
  "trim s = rev (dropWhile isWhiteSpace (rev (dropWhile isWhiteSpace s)))"

definition isQuote :: "char \<Rightarrow> bool" where
  "isQuote c = (c = CHR 0x27 \<or> c = CHR 0x22)"

text \<open>\<open>.replace(/^['"]|['"]$/g, "")\<close>: one leading and then one trailing quote character go.\<close>

definition strip_quotes :: "string \<Rightarrow> string" where
  "strip_quotes s =
     (let s1 = (case s of [] \<Rightarrow> [] | c # cs \<Rightarrow> if isQuote c then cs else s)
      in if s1 \<noteq> [] \<and> isQuote (last s1) then butlast s1 else s1)"

definition getHeaderEtag :: "string option \<Rightarrow> string option" where
  "getHeaderEtag header = map_option (\<lambda>h. strip_quotes (trim h)) header"

definition startsWith :: "string \<Rightarrow> string \<Rightarrow> bool" where
  "startsWith s p = (take (length p) s = p)"

text \<open>A value interpolated into a template string.\<close>

definition template_str :: "string option \<Rightarrow> string" where
  "template_str s = (case s of None \<Rightarrow> ''null'' | Some v \<Rightarrow> v)"

definition template_num :: "int option \<Rightarrow> string" where
  "template_num n = (case n of None \<Rightarrow> ''undefined'' | Some v \<Rightarrow> toString v)"

definition new_Response :: "string option \<Rightarrow> int \<Rightarrow> (string \<times> string) list \<Rightarrow> Response" where
  "new_Response b st hs = \<lparr>status = st, headers_out = hs, body = b\<rparr>"

definition ok :: "Response \<Rightarrow> bool" where
  "ok response = (200 \<le> status response \<and> status response \<le> 299)"

section \<open>The stages of \<open>fetch\<close>\<close>

text \<open>
  A stage either throws, returns a response to the client at once, or goes on to the next
  stage with a value.
\<close>

datatype 'a flow = Throws error | Returns Response | Continues 'a

definition allowedMethods :: "string list" where
  "allowedMethods = [''GET'', ''HEAD'', ''OPTIONS'']"

definition allow_header :: "(string \<times> string) list" where
  "allow_header = [(''allow'', ''GET, HEAD, OPTIONS'')]"

text \<open>Lines 103 to 128: the object key of the request, or an early 400 or 404.\<close>

definition resolve_key :: "Env \<Rightarrow> URL \<Rightarrow> Response + string" where
  "resolve_key env u =
     (if pathname u = ''/download'' \<or> pathname u = ''/downloadSHA256SUM'' then
        (let de = map_of (searchParams u) ''de'';
             nvidia = map_of (searchParams u) ''nvidia''
         in if \<not> truthy_str de \<or> \<not> truthy_str nvidia
            then Inl (new_Response (Some ''Missing parameters'') 400 [])
            else (let key = ''secureblue-'' @ template_str de @ ''-'' @ template_str nvidia
                              @ ''-hardened-'' @ template_num (DATE_SUFFIX env) @ ''.iso''
                  in Inr (if pathname u = ''/downloadSHA256SUM'' then key @ ''-CHECKSUM'' else key)))
      else if drop 1 (pathname u) = ''secureblue-keyring.gpg'' then Inr ''secureblue-keyring.gpg''
      else Inl (new_Response (Some ''Not Found'') 404 []))"

text \<open>
  Lines 141 to 146: the parser's answer is usable when it is neither error code, has
  exactly one range and its type is \<open>bytes\<close>.
\<close>

fun single_bytes_range :: "parse_result \<Rightarrow> (int \<times> int) option" where
  "single_bytes_range (Ranges type [firstRange]) = (if type = ''bytes'' then Some firstRange else None)"
| "single_bytes_range _ = None"

text \<open>Lines 148 to 154.\<close>

definition encode_range :: "int \<Rightarrow> int \<times> int \<Rightarrow> ParsedRange" where
  "encode_range fileSize firstRange =
     (if fileSize = snd firstRange + 1 then Suffix (fileSize - fst firstRange)
      else OffsetLength (fst firstRange) (snd firstRange - fst firstRange + 1))"

text \<open>Lines 130 to 159. The result is the pair of \<open>file\<close> and \<open>range\<close>.\<close>

definition range_handling ::
  "Platform \<Rightarrow> Request \<Rightarrow> Env \<Rightarrow> string \<Rightarrow> World
     \<Rightarrow> (R2Object option \<times> ParsedRange option) flow \<times> World" where
  "range_handling pf request env objectName w =
     (if method_name request = ''GET'' \<and> truthy_str (headers_get request ''range'') then
        (case retryAsync env (bucket env (head_call objectName)) w of
           (Inl err, w1) \<Rightarrow> (Throws err, w1)
         | (Inr None, w1) \<Rightarrow> (Returns (new_Response (Some ''File Not Found'') 404 []), w1)
         | (Inr (Some file), w1) \<Rightarrow>
             (case single_bytes_range
                     (parseRange pf (size_bytes file) (or_empty (headers_get request ''range''))) of
                Some firstRange \<Rightarrow>
                  (Continues (Some file, Some (encode_range (size_bytes file) firstRange)), w1)
              | None \<Rightarrow> (Returns (new_Response (Some ''Range Not Satisfiable'') 416 []), w1)))
      else (Continues (None, None), w))"

text \<open>Lines 176 to 185: \<open>If-Range\<close> may clear the range.\<close>

definition if_range ::
  "Platform \<Rightarrow> Request \<Rightarrow> R2Object option \<Rightarrow> ParsedRange option \<Rightarrow> ParsedRange option" where
  "if_range pf request file rng =
     (case file of
        None \<Rightarrow> rng
      | Some f \<Rightarrow>
          (if rng \<noteq> None \<and> truthy_str (headers_get request ''if-range'') then
             (let ifRange = or_empty (headers_get request ''if-range'');
                  maybeDate = Date_parse pf ifRange
              in if (case maybeDate of None \<Rightarrow> True | Some d \<Rightarrow> d > uploaded f) then
                   (if startsWith ifRange ''W/'' \<or> ifRange \<noteq> httpEtag f then None else rng)
                 else rng)
           else rng))"

definition ifMatch_of :: "Request \<Rightarrow> string option" where
  "ifMatch_of request = getHeaderEtag (headers_get request ''if-match'')"

definition ifNoneMatch_of :: "Request \<Rightarrow> string option" where
  "ifNoneMatch_of request = getHeaderEtag (headers_get request ''if-none-match'')"

definition ifModifiedSince_of :: "Platform \<Rightarrow> Request \<Rightarrow> int option" where
  "ifModifiedSince_of pf request = Date_parse pf (or_empty (headers_get request ''if-modified-since''))"

definition ifUnmodifiedSince_of :: "Platform \<Rightarrow> Request \<Rightarrow> int option" where
  "ifUnmodifiedSince_of pf request = Date_parse pf (or_empty (headers_get request ''if-unmodified-since''))"

text \<open>The options of the conditional \<open>get\<close> of lines 188 to 198.\<close>

definition if_match_options :: "Platform \<Rightarrow> Request \<Rightarrow> ParsedRange option \<Rightarrow> R2GetOptions" where
  "if_match_options pf request rng =
     \<lparr>onlyIf = Some \<lparr>etagMatches = ifMatch_of request,
                      etagDoesNotMatch = None,
                      uploadedBefore = (if truthy_num (ifUnmodifiedSince_of pf request)
                                        then ifUnmodifiedSince_of pf request else None),
                      uploadedAfter = None\<rparr>,
      range_opt = rng\<rparr>"

text \<open>Lines 187 to 203.\<close>

definition if_match_stage ::
  "Platform \<Rightarrow> Request \<Rightarrow> Env \<Rightarrow> string \<Rightarrow> R2Object option \<Rightarrow> ParsedRange option \<Rightarrow> World
     \<Rightarrow> R2Object option flow \<times> World" where
  "if_match_stage pf request env objectName file rng w =
     (if truthy_str (ifMatch_of request) \<or> truthy_num (ifUnmodifiedSince_of pf request) then
        (case retryAsync env
                (bucket env (get_call objectName (Some (if_match_options pf request rng)))) w of
           (Inl err, w1) \<Rightarrow> (Throws err, w1)
         | (Inr file1, w1) \<Rightarrow>
             (case file1 of
                None \<Rightarrow> (Continues file1, w1)
              | Some f \<Rightarrow>
                  if \<not> hasBody f
                  then (Returns (new_Response (Some ''Precondition Failed'') 412 []), w1)
                  else (Continues file1, w1)))
      else (Continues file, w))"

text \<open>The options of the conditional \<open>get\<close> of lines 207 to 221.\<close>

definition if_none_match_options :: "Platform \<Rightarrow> Request \<Rightarrow> ParsedRange option \<Rightarrow> R2GetOptions" where
  "if_none_match_options pf request rng =
     (if truthy_str (ifNoneMatch_of request) then
        \<lparr>onlyIf = Some \<lparr>etagMatches = None, etagDoesNotMatch = ifNoneMatch_of request,
                         uploadedBefore = None, uploadedAfter = None\<rparr>,
         range_opt = rng\<rparr>
      else
        \<lparr>onlyIf = Some \<lparr>etagMatches = None, etagDoesNotMatch = None,
                         uploadedBefore = None, uploadedAfter = ifModifiedSince_of pf request\<rparr>,
         range_opt = rng\<rparr>)"

text \<open>Lines 205 to 225.\<close>

definition if_none_match_stage ::
  "Platform \<Rightarrow> Request \<Rightarrow> Env \<Rightarrow> string \<Rightarrow> R2Object option \<Rightarrow> ParsedRange option \<Rightarrow> World
     \<Rightarrow> R2Object option flow \<times> World" where
  "if_none_match_stage pf request env objectName file rng w =
     (if truthy_str (ifNoneMatch_of request) \<or> truthy_num (ifModifiedSince_of pf request) then
        (case retryAsync env
                (bucket env (get_call objectName (Some (if_none_match_options pf request rng)))) w of
           (Inl err, w1) \<Rightarrow> (Throws err, w1)
         | (Inr file1, w1) \<Rightarrow>
             (case file1 of
                None \<Rightarrow> (Continues file1, w1)
              | Some f \<Rightarrow>
                  if \<not> hasBody f
                  then (Returns (new_Response None 304 []), w1)
                  else (Continues file1, w1)))
      else (Continues file, w))"

text \<open>
  Lines 103 to 225 in sequence: the key, the range, \<open>If-Range\<close> and the two precondition
  stages. The stages that follow need the key, \<open>file\<close> and \<open>range\<close>.
\<close>

definition negotiate ::
  "Platform \<Rightarrow> Request \<Rightarrow> Env \<Rightarrow> World
     \<Rightarrow> (string \<times> R2Object option \<times> ParsedRange option) flow \<times> World" where
  "negotiate pf request env w =
     (case resolve_key env (url request) of
        Inl response \<Rightarrow> (Returns response, w)
      | Inr key \<Rightarrow>
          (case range_handling pf request env key w of
             (Throws err, w1) \<Rightarrow> (Throws err, w1)
           | (Returns response, w1) \<Rightarrow> (Returns response, w1)
           | (Continues (file, range0), w1) \<Rightarrow>
               (let rng = if_range pf request file range0 in
                case if_match_stage pf request env key file rng w1 of
                  (Throws err, w2) \<Rightarrow> (Throws err, w2)
                | (Returns response, w2) \<Rightarrow> (Returns response, w2)
                | (Continues file1, w2) \<Rightarrow>
                    (case if_none_match_stage pf request env key file1 rng w2 of
                       (Throws err, w3) \<Rightarrow> (Throws err, w3)
                     | (Returns response, w3) \<Rightarrow> (Returns response, w3)
                     | (Continues file2, w3) \<Rightarrow> (Continues (key, file2, rng), w3)))))"

text \<open>Lines 227 to 232: the call that obtains the final metadata or body.\<close>

definition final_fetch ::
  "Request \<Rightarrow> Env \<Rightarrow> string \<Rightarrow> R2Object option \<Rightarrow> ParsedRange option \<Rightarrow> World
     \<Rightarrow> (error + R2Object option) \<times> World" where
  "final_fetch request env objectName file rng w =
     (if method_name request = ''HEAD'' then retryAsync env (bucket env (head_call objectName)) w
      else if (case file of None \<Rightarrow> False | Some f \<Rightarrow> hasBody f) then (Inr file, w)
      else retryAsync env
             (bucket env (get_call objectName (Some \<lparr>onlyIf = None, range_opt = rng\<rparr>))) w)"

text \<open>Lines 240 to 243: the fallback object is fetched whole.\<close>

definition fallback_fetch ::
  "Request \<Rightarrow> Env \<Rightarrow> string \<Rightarrow> World \<Rightarrow> (error + R2Object option) \<times> World" where
  "fallback_fetch request env objectName w =
     (if method_name request = ''HEAD'' then retryAsync env (bucket env (head_call objectName)) w
      else retryAsync env (bucket env (get_call objectName None)) w)"

definition meta :: "(R2HTTPMetadata \<Rightarrow> 'a option) \<Rightarrow> R2Object \<Rightarrow> 'a option" where
  "meta field file = (case httpMetadata file of None \<Rightarrow> None | Some m \<Rightarrow> field m)"

text \<open>Lines 255 to 259.\<close>

definition contentLength_of :: "R2Object \<Rightarrow> ParsedRange option \<Rightarrow> bool \<Rightarrow> int" where
  "contentLength_of file rng notFound =
     (if hasBody file \<and> size_bytes file \<noteq> 0 then
        (case rng of
           None \<Rightarrow> size_bytes file
         | Some r \<Rightarrow>
             if notFound then size_bytes file
             else if rangeHasLength r then length_bytes r else suffix r)
      else size_bytes file)"

text \<open>Lines 254 to 263: the body handed to the response.\<close>

definition body_of :: "R2Object \<Rightarrow> ParsedRange option \<Rightarrow> bool \<Rightarrow> string option" where
  "body_of file rng notFound =
     (case body_stream file of
        None \<Rightarrow> None
      | Some bs \<Rightarrow>
          if size_bytes file \<noteq> 0
          then Some (FixedLengthStream (contentLength_of file rng notFound) bs)
          else None)"

text \<open>Lines 264 to 287.\<close>

definition assemble ::
  "Platform \<Rightarrow> Env \<Rightarrow> string \<Rightarrow> R2Object \<Rightarrow> ParsedRange option \<Rightarrow> bool \<Rightarrow> Response" where
  "assemble pf env key file rng notFound =
     new_Response (body_of file rng notFound)
       (if notFound then 404 else if rng \<noteq> None then 206 else 200)
       [(''accept-ranges'', ''bytes''),
        (''access-control-allow-origin'', or_empty (ALLOWED_ORIGINS env)),
        (''etag'', if notFound then [] else httpEtag file),
        (''cache-control'',
           (case meta cacheControl file of
              Some c \<Rightarrow> c
            | None \<Rightarrow> if notFound then [] else or_empty (CACHE_CONTROL env))),
        (''expires'', or_empty (map_option (toUTCString pf) (meta cacheExpiry file))),
        (''last-modified'', if notFound then [] else toUTCString pf (uploaded file)),
        (''content-encoding'', or_empty (meta contentEncoding file)),
        (''content-type'',
           (case meta contentType file of Some t \<Rightarrow> t | None \<Rightarrow> ''application/octet-stream'')),
        (''content-language'', or_empty (meta contentLanguage file)),
        (''content-disposition'', ''attachment; filename='' @ [CHR 0x22] @ key @ [CHR 0x22]),
        (''content-range'',
           (case rng of
              None \<Rightarrow> []
            | Some r \<Rightarrow> if notFound then [] else getRangeHeader r (size_bytes file))),
        (''content-length'', toString (contentLength_of file rng notFound))]"

definition isCachingEnabled :: "Env \<Rightarrow> bool" where
  "isCachingEnabled env = (CACHE_CONTROL env \<noteq> Some ''no-store'')"

text \<open>Lines 264 to 290 once \<open>file\<close> is known: build the response and schedule the cache write.\<close>

definition finish ::
  "Platform \<Rightarrow> Request \<Rightarrow> Env \<Rightarrow> string \<Rightarrow> R2Object \<Rightarrow> ParsedRange option \<Rightarrow> bool \<Rightarrow> World
     \<Rightarrow> (error + Response) \<times> World" where
  "finish pf request env key file rng notFound w =
     (let response = assemble pf env key file rng notFound
      in (Inr response,
          if method_name request = ''GET'' \<and> rng = None \<and> isCachingEnabled env \<and> \<not> notFound
          then w\<lparr>waitUntil := waitUntil w @ [(request, response)]\<rparr>
          else w))"

text \<open>Lines 227 to 290.\<close>

definition respond ::
  "Platform \<Rightarrow> Request \<Rightarrow> Env \<Rightarrow> string \<Rightarrow> R2Object option \<Rightarrow> ParsedRange option \<Rightarrow> World
     \<Rightarrow> (error + Response) \<times> World" where
  "respond pf request env key file rng w =
     (case final_fetch request env key file rng w of
        (Inl err, w1) \<Rightarrow> (Inl err, w1)
      | (Inr (Some f), w1) \<Rightarrow> finish pf request env key f rng False w1
      | (Inr None, w1) \<Rightarrow>
          (if truthy_str (NOTFOUND_FILE env) then
             (case fallback_fetch request env (or_empty (NOTFOUND_FILE env)) w1 of
                (Inl err, w2) \<Rightarrow> (Inl err, w2)
              | (Inr (Some f), w2) \<Rightarrow> finish pf request env key f rng True w2
              | (Inr None, w2) \<Rightarrow> (Inr (new_Response (Some ''File Not Found'') 404 []), w2))
           else (Inr (new_Response (Some ''File Not Found'') 404 []), w1)))"

text \<open>Lines 99 to 290: the branch taken when the cache gave nothing usable.\<close>

definition pipeline :: "Platform \<Rightarrow> Request \<Rightarrow> Env \<Rightarrow> World \<Rightarrow> (error + Response) \<times> World" where
  "pipeline pf request env w =
     (case negotiate pf request env (console_log env (CacheMISS (url request)) w) of
        (Throws err, w1) \<Rightarrow> (Inl err, w1)
      | (Returns response, w1) \<Rightarrow> (Inr response, w1)
      | (Continues (key, file, rng), w1) \<Rightarrow> respond pf request env key file rng w1)"

text \<open>Lines 88 to 94: the cache is consulted only when caching is enabled.\<close>

definition cached :: "Request \<Rightarrow> Env \<Rightarrow> World \<Rightarrow> Response option" where
  "cached request env w = (if isCachingEnabled env then cache_match w request else None)"

text \<open>The handler. \<open>Inl\<close> is an error that escapes to the host.\<close>

definition fetch :: "Platform \<Rightarrow> Request \<Rightarrow> Env \<Rightarrow> World \<Rightarrow> (error + Response) \<times> World" where
  "fetch pf request env w =
     (if method_name request \<notin> set allowedMethods
      then (Inr (new_Response (Some ''Method Not Allowed'') 405 allow_header), w)
      else if method_name request = ''OPTIONS'' then (Inr (new_Response None 200 allow_header), w)
      else (case cached request env w of
              None \<Rightarrow> pipeline pf request env w
            | Some response \<Rightarrow>
                if ok response \<or> status response = 304
                then (Inr response, console_log env (CacheHIT (url request)) w)
                else pipeline pf request env w))"

text \<open>Line 99 as a predicate: the cache gave no response, or one that is neither successful nor 304.\<close>

definition cache_miss :: "Request \<Rightarrow> Env \<Rightarrow> World \<Rightarrow> bool" where
  "cache_miss request env w =
     (case cached request env w of
        None \<Rightarrow> True
      | Some response \<Rightarrow> \<not> (ok response \<or> status response = 304))"

text \<open>The \<open>content-length\<close> a response declares, and the length of the range in force.\<close>

definition header_out :: "Response \<Rightarrow> string \<Rightarrow> string option" where
  "header_out response name = map_of (headers_out response) name"

fun range_length :: "ParsedRange \<Rightarrow> int" where
  "range_length (OffsetLength off len) = len"
| "range_length (Suffix n) = n"

text \<open>
  The length a response with a body declares: the length of the range in force unless the
  fallback object is served, the size of the object otherwise.
\<close>

definition declared_length :: "R2Object \<Rightarrow> ParsedRange option \<Rightarrow> bool \<Rightarrow> int" where
  "declared_length file rng notFound =
     (case rng of
        None \<Rightarrow> size_bytes file
      | Some r \<Rightarrow> if notFound then size_bytes file else range_length r)"





section \<open>A sample deployment\<close>

text \<open>
  A bucket holding three objects, a runtime that knows two dates and a few range headers,
  and a configuration; the instances below are evaluated on them. The bucket answers a
  conditional \<open>get\<close> with metadata alone exactly when the condition fails.
\<close>

definition dquote :: string where
  "dquote = [CHR 0x22]"

definition sample_platform :: Platform where
  "sample_platform =
     \<lparr>Date_parse = (\<lambda>s. if s = ''Thu, 01 Jan 1970 00:00:00 GMT'' then Some 0
                        else if s = ''Wed, 21 Oct 2015 07:28:00 GMT'' then Some 1445412480000
                        else None),
      parseRange = (\<lambda>n s. if s = ''bytes=900-999'' \<and> n = 1000 then Ranges ''bytes'' [(900, 999)]
                          else if s = ''bytes=0-99'' \<and> n = 1000 then Ranges ''bytes'' [(0, 99)]
                          else if s = ''bytes=0-1,500-501'' \<and> n = 1000
                          then Ranges ''bytes'' [(0, 1), (500, 501)]
                          else if s = ''bytes=2000-'' then Unsatisfiable
                          else Malformed),
      toUTCString = (\<lambda>t. if t = 1445412480000 then ''Wed, 21 Oct 2015 07:28:00 GMT''
                         else ''Thu, 01 Jan 1970 00:00:00 GMT'')\<rparr>"

definition keyring_object :: R2Object where
  "keyring_object =
     \<lparr>size_bytes = 1000, httpEtag = dquote @ ''abc'' @ dquote, uploaded = 1445412480000,
      httpMetadata = None, body_stream = None\<rparr>"

definition checksum_object :: R2Object where
  "checksum_object =
     \<lparr>size_bytes = 0, httpEtag = dquote @ ''d41d'' @ dquote, uploaded = 1445412480000,
      httpMetadata = None, body_stream = None\<rparr>"

definition notfound_object :: R2Object where
  "notfound_object =
     \<lparr>size_bytes = 9, httpEtag = dquote @ ''nf'' @ dquote, uploaded = 1445412480000,
      httpMetadata = Some \<lparr>contentType = Some ''text/plain'', contentLanguage = None,
                            contentEncoding = None, cacheControl = None, cacheExpiry = None\<rparr>,
      body_stream = None\<rparr>"

definition keyring_content :: string where
  "keyring_content = replicate 1000 (CHR ''k'')"

definition sample_store :: "(string \<times> R2Object \<times> string) list" where
  "sample_store =
     [(''secureblue-keyring.gpg'', keyring_object, keyring_content),
      (''secureblue-kde-main-hardened-20240101.iso-CHECKSUM'', checksum_object, []),
      (''404.html'', notfound_object, ''not found'')]"

fun slice :: "ParsedRange option \<Rightarrow> string \<Rightarrow> string" where
  "slice None s = s"
| "slice (Some (OffsetLength off len)) s = take (nat len) (drop (nat off) s)"
| "slice (Some (Suffix n)) s = drop (length s - nat n) s"

definition condition_holds :: "R2Conditional \<Rightarrow> R2Object \<Rightarrow> bool" where
  "condition_holds c f =
     ((case etagMatches c of None \<Rightarrow> True | Some e \<Rightarrow> dquote @ e @ dquote = httpEtag f)
      \<and> (case etagDoesNotMatch c of None \<Rightarrow> True | Some e \<Rightarrow> dquote @ e @ dquote \<noteq> httpEtag f)
      \<and> (case uploadedBefore c of None \<Rightarrow> True | Some t \<Rightarrow> uploaded f < t)
      \<and> (case uploadedAfter c of None \<Rightarrow> True | Some t \<Rightarrow> uploaded f > t))"

definition store_get :: "R2Object \<Rightarrow> string \<Rightarrow> R2GetOptions option \<Rightarrow> R2Object" where
  "store_get f content opts =
     (case opts of
        None \<Rightarrow> f\<lparr>body_stream := Some content\<rparr>
      | Some given \<Rightarrow>
          if (case onlyIf given of None \<Rightarrow> True | Some c \<Rightarrow> condition_holds c f)
          then f\<lparr>body_stream := Some (slice (range_opt given) content)\<rparr>
          else f)"

definition sample_bucket :: "nat \<Rightarrow> r2_call \<Rightarrow> r2_outcome" where
  "sample_bucket n c =
     (case c of
        head_call k \<Rightarrow> Resolves (map_option fst (map_of sample_store k))
      | get_call k opts \<Rightarrow>
          Resolves (map_option (\<lambda>(f, content). store_get f content opts) (map_of sample_store k)))"

text \<open>The same bucket behind a connection that fails for the first two calls.\<close>

definition flaky_bucket :: "nat \<Rightarrow> r2_call \<Rightarrow> r2_outcome" where
  "flaky_bucket n c = (if n < 2 then Rejects ''Network connection lost'' else sample_bucket n c)"

definition sample_env :: Env where
  "sample_env =
     \<lparr>R2_BUCKET = sample_bucket, ALLOWED_ORIGINS = Some ''*'', CACHE_CONTROL = Some ''max-age=60'',
      NOTFOUND_FILE = Some ''404.html'', LOGGING = None, R2_RETRIES = Some 3,
      DATE_SUFFIX = Some 20240101\<rparr>"

definition world0 :: World where
  "world0 = \<lparr>r2_calls = [], timeouts = [], console = [], cache_default = [], waitUntil = []\<rparr>"

definition keyring_request :: "string \<Rightarrow> (string \<times> string) list \<Rightarrow> Request" where
  "keyring_request m hs =
     \<lparr>method_name = m, url = \<lparr>pathname = ''/secureblue-keyring.gpg'', searchParams = []\<rparr>, headers = hs\<rparr>"

definition checksum_request :: "string \<Rightarrow> string \<Rightarrow> (string \<times> string) list \<Rightarrow> Request" where
  "checksum_request de nvidia hs =
     \<lparr>method_name = ''GET'',
      url = \<lparr>pathname = ''/downloadSHA256SUM'', searchParams = [(''de'', de), (''nvidia'', nvidia)]\<rparr>,
      headers = hs\<rparr>"

definition stale_request :: Request where
  "stale_request = keyring_request ''GET'' [(''if-match'', dquote @ ''zzz'' @ dquote)]"

definition tail_request :: Request where
  "tail_request = keyring_request ''GET'' [(''range'', ''bytes=900-999'')]"

definition two_ranges_request :: Request where
  "two_ranges_request = keyring_request ''GET'' [(''range'', ''bytes=0-1,500-501'')]"


text \<open>The sample configuration behind the failing connection, with a retry budget.\<close>

definition flaky_env :: "int \<Rightarrow> Env" where
  "flaky_env budget = sample_env\<lparr>R2_BUCKET := flaky_bucket, R2_RETRIES := Some budget\<rparr>"

definition epoch_request :: Request where
  "epoch_request = keyring_request ''GET'' [(''if-modified-since'', ''Thu, 01 Jan 1970 00:00:00 GMT'')]"

definition keyring_tail :: R2Object where
  "keyring_tail = keyring_object\<lparr>body_stream := Some (slice (Some (Suffix 100)) keyring_content)\<rparr>"

definition keyring_whole :: R2Object where
  "keyring_whole = keyring_object\<lparr>body_stream := Some keyring_content\<rparr>"

definition notfound_whole :: R2Object where
  "notfound_whole = notfound_object\<lparr>body_stream := Some ''not found''\<rparr>"

definition missing_request :: Request where
  "missing_request = checksum_request ''kde'' ''nvidia'' []"

definition plain_request :: Request where
  "plain_request = keyring_request ''GET'' []"




text \<open>A world whose cache holds a failed response for the plain request.\<close>

definition stale_world :: World where
  "stale_world = world0\<lparr>cache_default := [(plain_request, new_Response (Some ''Bad Gateway'') 502 [])]\<rparr>"

text \<open>The response to the plain request and the world after it, before the host settles.\<close>

definition plain_response :: Response where
  "plain_response = assemble sample_platform sample_env ''secureblue-keyring.gpg'' keyring_whole None False"

definition plain_world :: World where
  "plain_world = world0\<lparr>r2_calls := [get_call ''secureblue-keyring.gpg''
                                          (Some \<lparr>onlyIf = None, range_opt = None\<rparr>)],
                         waitUntil := [(plain_request, plain_response)]\<rparr>"


text \<open>
  A bucket whose only object declares five bytes and streams whatever it is given: more
  than it declares, or fewer.
\<close>

definition drift_object :: "string \<Rightarrow> R2Object" where
  "drift_object stream =
     \<lparr>size_bytes = 5, httpEtag = dquote @ ''dr'' @ dquote, uploaded = 1445412480000,
      httpMetadata = None, body_stream = Some stream\<rparr>"

definition drift_env :: "string \<Rightarrow> Env" where
  "drift_env stream = sample_env\<lparr>R2_BUCKET := (\<lambda>n c. Resolves (Some (drift_object stream)))\<rparr>"

section \<open>Properties\<close>

subsection \<open>The trace of bucket calls\<close>

lemma r2_calls_console_log [simp]: "r2_calls (console_log env e w) = r2_calls w"
  by (simp add: console_log_def)

lemma r2_calls_setTimeout [simp]: "r2_calls (setTimeout d w) = r2_calls w"
  by (simp add: setTimeout_def)

lemma bucket_trace: "bucket env c w = (r, w1) \<Longrightarrow> r2_calls w1 = r2_calls w @ [c]"
  by (auto simp: bucket_def Let_def split: r2_outcome.splits)

lemma retry_loop_trace:
  assumes fn: "\<forall>w r w1. fn w = (r, w1) \<longrightarrow> r2_calls w1 = r2_calls w @ [c]"
    and run: "retry_loop env fn m a w = (res, w')"
  shows "\<exists>k. r2_calls w' = r2_calls w @ replicate k c \<and> (\<forall>v. res = Inr v \<longrightarrow> 0 < k)"
  using fn run
proof (induction env fn m a w arbitrary: res w' rule: retry_loop.induct)
  case (1 env fn m a w)
  obtain r w1 where fw: "fn w = (r, w1)" by (cases "fn w")
  show ?case
  proof (cases "m = - 1 \<or> a \<le> m")
    case False
    with "1.prems"(2) have "res = Inl ''unreachable''" "w' = w"
      by (simp_all add: retry_loop.simps)
    then show ?thesis by (intro exI [of _ 0]) simp
  next
    case enter: True
    have tr: "r2_calls w1 = r2_calls w @ [c]" using "1.prems"(1) fw by blast
    show ?thesis
    proof (cases r)
      case (Inr v)
      with "1.prems"(2) enter fw have "res = Inr v" "w' = w1"
        by (simp_all add: retry_loop.simps)
      with tr show ?thesis by (intro exI [of _ 1]) simp
    next
      case (Inl err)
      show ?thesis
      proof (cases "a + 1 \<le> m")
        case False
        with "1.prems"(2) enter fw Inl
        have "res = Inl err" "w' = console_log env (AttemptFailed (a + 1) err) w1"
          by (simp_all add: retry_loop.simps Let_def)
        with tr show ?thesis by (intro exI [of _ 1]) simp
      next
        case again: True
        let ?w2 = "setTimeout (backoff (a + 1)) (console_log env (AttemptFailed (a + 1) err) w1)"
        from "1.prems"(2) enter fw Inl again
        have rec: "retry_loop env fn m (a + 1) ?w2 = (res, w')"
          by (simp add: retry_loop.simps [of env fn m a w] Let_def)
        from "1.IH" [OF enter fw [symmetric] Inl refl again "1.prems"(1) rec]
        obtain k where k: "r2_calls w' = r2_calls ?w2 @ replicate k c"
          by blast
        with tr have "r2_calls w' = r2_calls w @ replicate (Suc k) c"
          by (simp add: replicate_append_same)
        then show ?thesis by blast
      qed
    qed
  qed
qed

lemma retryAsync_trace:
  assumes "retryAsync env (bucket env c) w = (res, w')"
  shows "\<exists>k. r2_calls w' = r2_calls w @ replicate k c \<and> (\<forall>v. res = Inr v \<longrightarrow> 0 < k)"
proof -
  have "\<forall>w r w1. bucket env c w = (r, w1) \<longrightarrow> r2_calls w1 = r2_calls w @ [c]"
    by (simp add: bucket_trace)
  then show ?thesis
    using assms unfolding retryAsync_def by (rule retry_loop_trace)
qed

lemma fetch_miss:
  assumes "method_name request = ''GET'' \<or> method_name request = ''HEAD''"
    and "cache_miss request env w"
  shows "fetch pf request env w = pipeline pf request env w"
  using assms
  by (auto simp: fetch_def cache_miss_def allowedMethods_def split: option.splits)

subsection \<open>The 412 stage\<close>

text \<open>
  Claim C1, as the code has it. A GET or HEAD request that misses the cache, resolves to a
  key and passes the range stage, and that carries a non-empty \<open>If-Match\<close> (after trimming
  and quote-stripping) or an \<open>If-Unmodified-Since\<close> that parses to a non-zero time value:
  the engine issues a conditional \<open>get\<close> with those constraints and the effective range,
  and when the bucket answers with metadata without a body the response is 412 with the
  text body \<open>Precondition Failed\<close>, and that conditional \<open>get\<close> is the last bucket call.
\<close>

theorem precondition_failed_412:
  assumes m: "method_name request = ''GET'' \<or> method_name request = ''HEAD''"
    and miss: "cache_miss request env w"
    and key: "resolve_key env (url request) = Inr key"
    and rh: "range_handling pf request env key (console_log env (CacheMISS (url request)) w)
               = (Continues (file, range0), w1)"
    and hdr: "truthy_str (ifMatch_of request) \<or> truthy_num (ifUnmodifiedSince_of pf request)"
    and cond: "retryAsync env
                 (bucket env (get_call key
                    (Some (if_match_options pf request (if_range pf request file range0))))) w1
               = (Inr (Some f), w2)"
    and nobody: "\<not> hasBody f"
  shows "fetch pf request env w = (Inr (new_Response (Some ''Precondition Failed'') 412 []), w2)
         \<and> (\<exists>k. 0 < k \<and> r2_calls w2 = r2_calls w1 @ replicate k (get_call key
                    (Some (if_match_options pf request (if_range pf request file range0)))))"
proof -
  have stage: "if_match_stage pf request env key file (if_range pf request file range0) w1
                 = (Returns (new_Response (Some ''Precondition Failed'') 412 []), w2)"
    using hdr cond nobody by (simp add: if_match_stage_def)
  have "negotiate pf request env (console_log env (CacheMISS (url request)) w)
          = (Returns (new_Response (Some ''Precondition Failed'') 412 []), w2)"
    by (simp add: negotiate_def key rh stage)
  then have "pipeline pf request env w = (Inr (new_Response (Some ''Precondition Failed'') 412 []), w2)"
    by (simp add: pipeline_def)
  moreover from retryAsync_trace [OF cond]
  have "\<exists>k. 0 < k \<and> r2_calls w2 = r2_calls w1 @ replicate k (get_call key
                    (Some (if_match_options pf request (if_range pf request file range0))))"
    by auto
  ultimately show ?thesis
    using fetch_miss [OF m miss] by simp
qed

theorem precondition_failed_412_witness:
  "fetch sample_platform stale_request sample_env world0
     = (Inr (new_Response (Some ''Precondition Failed'') 412 []),
        world0\<lparr>r2_calls := [get_call ''secureblue-keyring.gpg''
           (Some (if_match_options sample_platform stale_request None))]\<rparr>)
   \<and> (\<exists>k. 0 < k \<and> r2_calls (world0\<lparr>r2_calls := [get_call ''secureblue-keyring.gpg''
           (Some (if_match_options sample_platform stale_request None))]\<rparr>)
         = r2_calls world0 @ replicate k (get_call ''secureblue-keyring.gpg''
           (Some (if_match_options sample_platform stale_request (if_range sample_platform stale_request None None)))))"
proof -
  have m: "method_name stale_request = ''GET'' \<or> method_name stale_request = ''HEAD''"
    by (simp add: stale_request_def keyring_request_def)
  have miss: "cache_miss stale_request sample_env world0"
    by code_simp
  have key: "resolve_key sample_env (url stale_request) = Inr ''secureblue-keyring.gpg''"
    by code_simp
  have rh: "range_handling sample_platform stale_request sample_env ''secureblue-keyring.gpg''
              (console_log sample_env (CacheMISS (url stale_request)) world0)
            = (Continues (None, None), world0)"
    by code_simp
  have hdr: "truthy_str (ifMatch_of stale_request)
             \<or> truthy_num (ifUnmodifiedSince_of sample_platform stale_request)"
    by code_simp
  have cond: "retryAsync sample_env
                 (bucket sample_env (get_call ''secureblue-keyring.gpg''
                    (Some (if_match_options sample_platform stale_request
                       (if_range sample_platform stale_request None None))))) world0
               = (Inr (Some keyring_object), world0\<lparr>r2_calls := [get_call ''secureblue-keyring.gpg''
           (Some (if_match_options sample_platform stale_request None))]\<rparr>)"
    by code_simp
  have nobody: "\<not> hasBody keyring_object"
    by code_simp
  show ?thesis
    using precondition_failed_412 [OF m miss key rh hdr cond nobody] by simp
qed

text \<open>
  The body of the 412 response is not empty: for a stale \<open>If-Match\<close> the bucket answers
  with metadata only and the client receives the text \<open>Precondition Failed\<close>.
\<close>

theorem precondition_failed_body_counterexample:
  "R2_BUCKET sample_env 0
     (get_call ''secureblue-keyring.gpg'' (Some (if_match_options sample_platform stale_request None)))
     = Resolves (Some keyring_object)
   \<and> \<not> hasBody keyring_object
   \<and> fst (fetch sample_platform stale_request sample_env world0)
       = Inr \<lparr>status = 412, headers_out = [], body = Some ''Precondition Failed''\<rparr>
   \<and> Some ''Precondition Failed'' \<noteq> (None :: string option)
   \<and> Some ''Precondition Failed'' \<noteq> Some []"
  by code_simp

subsection \<open>Range negotiation\<close>

lemma pipeline_continue:
  assumes key: "resolve_key env (url request) = Inr key"
    and rh: "range_handling pf request env key (console_log env (CacheMISS (url request)) w)
               = (Continues (file, range0), w1)"
    and st1: "if_match_stage pf request env key file (if_range pf request file range0) w1
               = (Continues file1, w2)"
    and st2: "if_none_match_stage pf request env key file1 (if_range pf request file range0) w2
               = (Continues file2, w3)"
  shows "pipeline pf request env w
           = respond pf request env key file2 (if_range pf request file range0) w3"
  by (simp add: pipeline_def negotiate_def key rh st1 st2)

lemma range_handling_single:
  assumes m: "method_name request = ''GET''"
    and hdr: "headers_get request ''range'' = Some rangeHeader" "rangeHeader \<noteq> []"
    and hd: "retryAsync env (bucket env (head_call key)) w = (Inr (Some file), w1)"
    and parse: "parseRange pf (size_bytes file) rangeHeader = Ranges ''bytes'' [(start, stop)]"
  shows "range_handling pf request env key w
           = (Continues (Some file, Some (encode_range (size_bytes file) (start, stop))), w1)"
  using assms by (simp add: range_handling_def truthy_str_def or_empty_def)

lemma getRangeHeader_encode:
  "getRangeHeader (encode_range n (start, stop)) n
     = ''bytes '' @ toString start @ ''-'' @ toString stop @ ''/'' @ toString n"
  by (simp add: encode_range_def getRangeHeader_def)

lemma range_length_encode: "range_length (encode_range n (start, stop)) = stop - start + 1"
  by (simp add: encode_range_def)

lemma single_bytes_range_None:
  "single_bytes_range p = None \<longleftrightarrow>
     p = Malformed \<or> p = Unsatisfiable \<or> (\<exists>t rs. p = Ranges t rs \<and> (length rs \<noteq> 1 \<or> t \<noteq> ''bytes''))"
  by (cases p rule: single_bytes_range.cases) auto

lemma contentLength_of_range:
  "hasBody f \<Longrightarrow> size_bytes f \<noteq> 0 \<Longrightarrow> contentLength_of f (Some r) False = range_length r"
  by (cases r) (simp_all add: contentLength_of_def)

text \<open>
  Claim C3. For a GET whose \<open>Range\<close> header parses to the single satisfiable bytes range
  \<open>[start, stop]\<close> against the object's size, the effective range is \<open>{suffix: size - start}\<close>
  when \<open>stop + 1 = size\<close> and \<open>{offset: start, length: stop - start + 1}\<close> otherwise. When
  the later stages keep that range and the final call returns the body of an object of that
  size, the response has status 206, \<open>content-range: bytes start-stop/size\<close> and
  \<open>content-length: stop - start + 1\<close>. The instance after it is size 1000 with
  \<open>Range: bytes=900-999\<close>: \<open>{suffix: 100}\<close>, 206, \<open>bytes 900-999/1000\<close> and \<open>100\<close>.
\<close>

theorem single_range_206:
  assumes m: "method_name request = ''GET''"
    and miss: "cache_miss request env w"
    and key: "resolve_key env (url request) = Inr key"
    and hdr: "headers_get request ''range'' = Some rangeHeader" "rangeHeader \<noteq> []"
    and hd: "retryAsync env (bucket env (head_call key))
               (console_log env (CacheMISS (url request)) w) = (Inr (Some file), w1)"
    and parse: "parseRange pf (size_bytes file) rangeHeader = Ranges ''bytes'' [(start, stop)]"
    and sat: "0 \<le> start" "start \<le> stop" "stop < size_bytes file"
  shows "range_handling pf request env key (console_log env (CacheMISS (url request)) w)
           = (Continues (Some file,
                Some (if stop + 1 = size_bytes file then Suffix (size_bytes file - start)
                      else OffsetLength start (stop - start + 1))), w1)
         \<and> (if_range pf request (Some file) (Some (encode_range (size_bytes file) (start, stop)))
               = Some (encode_range (size_bytes file) (start, stop))
            \<and> if_match_stage pf request env key (Some file)
                 (Some (encode_range (size_bytes file) (start, stop))) w1 = (Continues file_a, w_a)
            \<and> if_none_match_stage pf request env key file_a
                 (Some (encode_range (size_bytes file) (start, stop))) w_a = (Continues file_b, w_b)
            \<and> final_fetch request env key file_b
                 (Some (encode_range (size_bytes file) (start, stop))) w_b = (Inr (Some f), w_c)
            \<and> hasBody f \<and> size_bytes f = size_bytes file
            \<longrightarrow> (\<exists>response. fetch pf request env w = (Inr response, w_c)
                   \<and> status response = 206
                   \<and> header_out response ''content-range''
                       = Some (''bytes '' @ toString start @ ''-'' @ toString stop @ ''/''
                                 @ toString (size_bytes file))
                   \<and> header_out response ''content-length'' = Some (toString (stop - start + 1))))"
proof (intro conjI impI)
  let ?w0 = "console_log env (CacheMISS (url request)) w"
  let ?r = "encode_range (size_bytes file) (start, stop)"
  have rh: "range_handling pf request env key ?w0 = (Continues (Some file, Some ?r), w1)"
    using m hdr hd parse by (rule range_handling_single)
  then show "range_handling pf request env key ?w0
           = (Continues (Some file,
                Some (if stop + 1 = size_bytes file then Suffix (size_bytes file - start)
                      else OffsetLength start (stop - start + 1))), w1)"
    by (simp add: encode_range_def)
  assume pass: "if_range pf request (Some file) (Some ?r) = Some ?r
            \<and> if_match_stage pf request env key (Some file) (Some ?r) w1 = (Continues file_a, w_a)
            \<and> if_none_match_stage pf request env key file_a (Some ?r) w_a = (Continues file_b, w_b)
            \<and> final_fetch request env key file_b (Some ?r) w_b = (Inr (Some f), w_c)
            \<and> hasBody f \<and> size_bytes f = size_bytes file"
  have "pipeline pf request env w = respond pf request env key file_b (Some ?r) w_b"
    using pipeline_continue [OF key rh] pass by simp
  also have "\<dots> = (Inr (assemble pf env key f (Some ?r) False), w_c)"
    using pass by (simp add: respond_def finish_def)
  finally have run: "fetch pf request env w = (Inr (assemble pf env key f (Some ?r) False), w_c)"
    using fetch_miss [of request env w pf] m miss by simp
  have len: "contentLength_of f (Some ?r) False = stop - start + 1"
    using pass sat by (simp add: contentLength_of_range range_length_encode)
  have "status (assemble pf env key f (Some ?r) False) = 206"
    by (simp add: assemble_def new_Response_def)
  moreover have "header_out (assemble pf env key f (Some ?r) False) ''content-range''
      = Some (''bytes '' @ toString start @ ''-'' @ toString stop @ ''/'' @ toString (size_bytes file))"
    using pass by (simp add: header_out_def assemble_def new_Response_def getRangeHeader_encode)
  moreover have "header_out (assemble pf env key f (Some ?r) False) ''content-length''
      = Some (toString (stop - start + 1))"
    by (simp add: header_out_def assemble_def new_Response_def len)
  ultimately show "\<exists>response. fetch pf request env w = (Inr response, w_c)
                   \<and> status response = 206
                   \<and> header_out response ''content-range''
                       = Some (''bytes '' @ toString start @ ''-'' @ toString stop @ ''/''
                                 @ toString (size_bytes file))
                   \<and> header_out response ''content-length'' = Some (toString (stop - start + 1))"
    using run by blast
qed

theorem single_range_206_witness:
  "range_handling sample_platform tail_request sample_env ''secureblue-keyring.gpg''
     (console_log sample_env (CacheMISS (url tail_request)) world0)
     = (Continues (Some keyring_object, Some (Suffix 100)),
        world0\<lparr>r2_calls := [head_call ''secureblue-keyring.gpg'']\<rparr>)
   \<and> (\<exists>response. fetch sample_platform tail_request sample_env world0
          = (Inr response,
             world0\<lparr>r2_calls := [head_call ''secureblue-keyring.gpg'',
                get_call ''secureblue-keyring.gpg''
                  (Some \<lparr>onlyIf = None, range_opt = Some (Suffix 100)\<rparr>)]\<rparr>)
        \<and> status response = 206
        \<and> header_out response ''content-range'' = Some ''bytes 900-999/1000''
        \<and> header_out response ''content-length'' = Some ''100'')"
proof -
  let ?w1 = "world0\<lparr>r2_calls := [head_call ''secureblue-keyring.gpg'']\<rparr>"
  let ?w2 = "world0\<lparr>r2_calls := [head_call ''secureblue-keyring.gpg'',
                get_call ''secureblue-keyring.gpg''
                  (Some \<lparr>onlyIf = None, range_opt = Some (Suffix 100)\<rparr>)]\<rparr>"
  let ?f = "keyring_tail"
  have m: "method_name tail_request = ''GET''"
    by code_simp
  have miss: "cache_miss tail_request sample_env world0"
    by code_simp
  have key: "resolve_key sample_env (url tail_request) = Inr ''secureblue-keyring.gpg''"
    by code_simp
  have hdr: "headers_get tail_request ''range'' = Some ''bytes=900-999''"
    by code_simp
  have ne: "''bytes=900-999'' \<noteq> []"
    by simp
  have hd: "retryAsync sample_env (bucket sample_env (head_call ''secureblue-keyring.gpg''))
              (console_log sample_env (CacheMISS (url tail_request)) world0)
            = (Inr (Some keyring_object), ?w1)"
    by code_simp
  have sz: "size_bytes keyring_object = 1000"
    by code_simp
  have parse: "parseRange sample_platform (size_bytes keyring_object) ''bytes=900-999''
                 = Ranges ''bytes'' [(900, 999)]"
    by code_simp
  have sat: "(0::int) \<le> 900" "(900::int) \<le> 999" "999 < size_bytes keyring_object"
    by (simp_all add: sz)
  have enc: "encode_range 1000 (900, 999) = Suffix 100"
    by code_simp
  have keep: "if_range sample_platform tail_request (Some keyring_object) (Some (Suffix 100))
                = Some (Suffix 100)"
    by code_simp
  have st1: "if_match_stage sample_platform tail_request sample_env ''secureblue-keyring.gpg''
               (Some keyring_object) (Some (Suffix 100)) ?w1 = (Continues (Some keyring_object), ?w1)"
    by code_simp
  have st2: "if_none_match_stage sample_platform tail_request sample_env ''secureblue-keyring.gpg''
               (Some keyring_object) (Some (Suffix 100)) ?w1 = (Continues (Some keyring_object), ?w1)"
    by code_simp
  have ff: "final_fetch tail_request sample_env ''secureblue-keyring.gpg'' (Some keyring_object)
              (Some (Suffix 100)) ?w1 = (Inr (Some ?f), ?w2)"
    by code_simp
  have bd: "hasBody ?f" "size_bytes ?f = size_bytes keyring_object"
    by code_simp+
  have ts: "toString 900 = ''900''" "toString 999 = ''999''" "toString 1000 = ''1000''"
      "toString 100 = ''100''"
    by code_simp+
  from single_range_206 [OF m miss key hdr ne hd parse sat, where file_a = "Some keyring_object"
      and w_a = ?w1 and file_b = "Some keyring_object" and w_b = ?w1 and f = ?f and w_c = ?w2]
  show ?thesis
    using keep st1 st2 ff bd by (simp add: enc sz ts)
qed

text \<open>
  Claim C5. For a GET with a \<open>Range\<close> header on an existing object, when the parser
  reports the header as malformed or unsatisfiable, or returns a number of ranges other than
  one, or a unit other than \<open>bytes\<close>, the response has status 416 and the only bucket calls
  made are the metadata calls (\<open>head\<close>) of the range stage. The instance after it is
  \<open>Range: bytes=0-1,500-501\<close>.
\<close>

theorem bad_range_416:
  assumes m: "method_name request = ''GET''"
    and miss: "cache_miss request env w"
    and key: "resolve_key env (url request) = Inr key"
    and hdr: "headers_get request ''range'' = Some rangeHeader" "rangeHeader \<noteq> []"
    and hd: "retryAsync env (bucket env (head_call key))
               (console_log env (CacheMISS (url request)) w) = (Inr (Some file), w1)"
    and bad: "parseRange pf (size_bytes file) rangeHeader = Malformed
              \<or> parseRange pf (size_bytes file) rangeHeader = Unsatisfiable
              \<or> (\<exists>t rs. parseRange pf (size_bytes file) rangeHeader = Ranges t rs
                    \<and> (length rs \<noteq> 1 \<or> t \<noteq> ''bytes''))"
  shows "fetch pf request env w = (Inr (new_Response (Some ''Range Not Satisfiable'') 416 []), w1)
         \<and> (\<exists>k. r2_calls w1 = r2_calls w @ replicate k (head_call key))"
proof -
  have none: "single_bytes_range (parseRange pf (size_bytes file) rangeHeader) = None"
    using bad by (simp only: single_bytes_range_None)
  have "range_handling pf request env key (console_log env (CacheMISS (url request)) w)
          = (Returns (new_Response (Some ''Range Not Satisfiable'') 416 []), w1)"
    using m hdr hd none by (simp add: range_handling_def truthy_str_def or_empty_def)
  then have "pipeline pf request env w
               = (Inr (new_Response (Some ''Range Not Satisfiable'') 416 []), w1)"
    by (simp add: pipeline_def negotiate_def key)
  moreover from retryAsync_trace [OF hd]
  have "\<exists>k. r2_calls w1 = r2_calls w @ replicate k (head_call key)"
    by auto
  ultimately show ?thesis
    using fetch_miss [of request env w pf] m miss by simp
qed

theorem bad_range_416_witness:
  "fetch sample_platform two_ranges_request sample_env world0
     = (Inr (new_Response (Some ''Range Not Satisfiable'') 416 []),
        world0\<lparr>r2_calls := [head_call ''secureblue-keyring.gpg'']\<rparr>)
   \<and> (\<exists>k. r2_calls (world0\<lparr>r2_calls := [head_call ''secureblue-keyring.gpg'']\<rparr>)
          = r2_calls world0 @ replicate k (head_call ''secureblue-keyring.gpg''))"
proof -
  have m: "method_name two_ranges_request = ''GET''"
    by code_simp
  have miss: "cache_miss two_ranges_request sample_env world0"
    by code_simp
  have key: "resolve_key sample_env (url two_ranges_request) = Inr ''secureblue-keyring.gpg''"
    by code_simp
  have hdr: "headers_get two_ranges_request ''range'' = Some ''bytes=0-1,500-501''"
    by code_simp
  have ne: "''bytes=0-1,500-501'' \<noteq> []"
    by simp
  have hd: "retryAsync sample_env (bucket sample_env (head_call ''secureblue-keyring.gpg''))
              (console_log sample_env (CacheMISS (url two_ranges_request)) world0)
            = (Inr (Some keyring_object), world0\<lparr>r2_calls := [head_call ''secureblue-keyring.gpg'']\<rparr>)"
    by code_simp
  have parse: "parseRange sample_platform (size_bytes keyring_object) ''bytes=0-1,500-501''
                 = Ranges ''bytes'' [(0, 1), (500, 501)]"
    by code_simp
  have bad: "parseRange sample_platform (size_bytes keyring_object) ''bytes=0-1,500-501'' = Malformed
              \<or> parseRange sample_platform (size_bytes keyring_object) ''bytes=0-1,500-501'' = Unsatisfiable
              \<or> (\<exists>t rs. parseRange sample_platform (size_bytes keyring_object) ''bytes=0-1,500-501''
                      = Ranges t rs \<and> (length rs \<noteq> 1 \<or> t \<noteq> ''bytes''))"
    by (simp add: parse)
  show ?thesis
    by (rule bad_range_416 [OF m miss key hdr ne hd bad])
qed



subsection \<open>The retry wrapper\<close>

text \<open>
  One step of the loop in each of its three outcomes, the exhaustion of a budget, and two
  failures followed by a success under a budget of 3 (delays 1000 and 2000).
\<close>

lemma retry_success:
  assumes "maxAttempts = - 1 \<or> attempts \<le> maxAttempts" and "fn w = (Inr v, w1)"
  shows "retry_loop env fn maxAttempts attempts w = (Inr v, w1)"
  using assms by (simp add: retry_loop.simps)

lemma retry_again:
  assumes "attempts + 1 \<le> maxAttempts" and "fn w = (Inl err, w1)"
  shows "retry_loop env fn maxAttempts attempts w
           = retry_loop env fn maxAttempts (attempts + 1)
               (setTimeout (min (1000 * 2 ^ nat attempts) 30000)
                  (console_log env (AttemptFailed (attempts + 1) err) w1))"
  using assms by (simp add: retry_loop.simps [of env fn maxAttempts attempts w] backoff_def)

lemma retry_rethrow:
  assumes "maxAttempts = - 1 \<or> attempts \<le> maxAttempts" and "\<not> attempts + 1 \<le> maxAttempts"
    and "fn w = (Inl err, w1)"
  shows "retry_loop env fn maxAttempts attempts w
           = (Inl err, console_log env (AttemptFailed (attempts + 1) err) w1)"
  using assms by (simp add: retry_loop.simps [of env fn maxAttempts attempts w])

lemma retry_exhausted:
  assumes "\<forall>w. \<exists>err w1. fn w = (Inl err, w1)" and "0 \<le> attempts" and "attempts \<le> maxAttempts"
  shows "\<exists>wl err w1. fn wl = (Inl err, w1)
           \<and> retry_loop env fn maxAttempts attempts w
               = (Inl err, console_log env (AttemptFailed (maxAttempts + 1) err) w1)"
  using assms
proof (induction env fn maxAttempts attempts w rule: retry_loop.induct)
  case (1 env fn maxAttempts attempts w)
  from "1.prems"(1) obtain err w1 where fw: "fn w = (Inl err, w1)"
    by blast
  show ?case
  proof (cases "attempts + 1 \<le> maxAttempts")
    case True
    let ?w2 = "console_log env (AttemptFailed (attempts + 1) err) w1"
    have enter: "maxAttempts = - 1 \<or> attempts \<le> maxAttempts"
      using "1.prems"(3) by simp
    from "1.IH" [OF enter fw [symmetric] refl refl True "1.prems"(1)] "1.prems"(2) True
    obtain wl err' w1' where "fn wl = (Inl err', w1')"
      "retry_loop env fn maxAttempts (attempts + 1) (setTimeout (backoff (attempts + 1)) ?w2)
         = (Inl err', console_log env (AttemptFailed (maxAttempts + 1) err') w1')"
      by auto
    then show ?thesis
      using retry_again [of attempts maxAttempts fn w err w1 env] True fw
      by (auto simp: backoff_def)
  next
    case False
    with "1.prems"(3) have "attempts = maxAttempts"
      by simp
    then show ?thesis
      using retry_rethrow [of maxAttempts attempts fn w err w1 env] False fw by auto
  qed
qed

lemma retry_twice_then_success:
  assumes "R2_RETRIES env = Some 3"
    and "fn w = (Inl e1, w1)"
    and "fn (setTimeout 1000 (console_log env (AttemptFailed 1 e1) w1)) = (Inl e2, w2)"
    and "fn (setTimeout 2000 (console_log env (AttemptFailed 2 e2) w2)) = (Inr v, w3)"
  shows "retryAsync env fn w = (Inr v, w3)"
proof -
  have "retryAsync env fn w = retry_loop env fn 3 0 w"
    using assms(1) by (simp add: retryAsync_def maxAttempts_of_def)
  also have "\<dots> = retry_loop env fn 3 1 (setTimeout 1000 (console_log env (AttemptFailed 1 e1) w1))"
    using retry_again [of 0 3 fn w e1 w1 env] assms(2) by simp
  also have "\<dots> = retry_loop env fn 3 2 (setTimeout 2000 (console_log env (AttemptFailed 2 e2) w2))"
    using retry_again [of 1 3 fn _ e2 w2 env] assms(3) by simp
  also have "\<dots> = (Inr v, w3)"
    using retry_success [of 3 2 fn _ v w3 env] assms(4) by simp
  finally show ?thesis .
qed

lemma retry_unbounded_gives_up:
  assumes "R2_RETRIES env = Some (- 1)" and "fn w = (Inl err, w1)"
  shows "retryAsync env fn w = (Inl err, console_log env (AttemptFailed 1 err) w1)"
  using assms retry_rethrow [of "- 1" 0 fn w err w1 env]
  by (simp add: retryAsync_def maxAttempts_of_def)

text \<open>
  Claim C8, at the input where the code departs from it. With \<open>R2_RETRIES = -1\<close> the loop
  condition admits every attempt, but the test \<open>attempts <= maxAttempts\<close> after a failure is
  false, so the first failure is thrown again at once: one call, no delay. The same
  operation under a budget of 3 succeeds on the third call after delays of 1000 and 2000.
\<close>

theorem unbounded_budget_gives_up:
  "retryAsync (flaky_env (- 1)) (bucket (flaky_env (- 1)) (head_call ''secureblue-keyring.gpg'')) world0
     = (Inl ''Network connection lost'', world0\<lparr>r2_calls := [head_call ''secureblue-keyring.gpg'']\<rparr>)
   \<and> retryAsync (flaky_env 3) (bucket (flaky_env 3) (head_call ''secureblue-keyring.gpg'')) world0
     = (Inr (Some keyring_object),
        world0\<lparr>r2_calls := [head_call ''secureblue-keyring.gpg'', head_call ''secureblue-keyring.gpg'',
                            head_call ''secureblue-keyring.gpg''],
               timeouts := [1000, 2000]\<rparr>)"
  by code_simp

subsection \<open>The 304 stage\<close>

text \<open>
  A request that passed the 412 stage with a non-empty \<open>If-None-Match\<close> or an
  \<open>If-Modified-Since\<close> that parses to a non-zero time value: the conditional \<open>get\<close> is
  issued, with \<open>etagDoesNotMatch\<close> alone when \<open>If-None-Match\<close> is there, and metadata
  without a body gives 304 with no body and no headers.
\<close>

lemma not_modified_304:
  assumes m: "method_name request = ''GET'' \<or> method_name request = ''HEAD''"
    and miss: "cache_miss request env w"
    and key: "resolve_key env (url request) = Inr key"
    and rh: "range_handling pf request env key (console_log env (CacheMISS (url request)) w)
               = (Continues (file, range0), w1)"
    and st1: "if_match_stage pf request env key file (if_range pf request file range0) w1
               = (Continues file1, w2)"
    and hdr: "truthy_str (ifNoneMatch_of request) \<or> truthy_num (ifModifiedSince_of pf request)"
    and cond: "retryAsync env
                 (bucket env (get_call key
                    (Some (if_none_match_options pf request (if_range pf request file range0))))) w2
               = (Inr (Some f), w3)"
    and nobody: "\<not> hasBody f"
  shows "fetch pf request env w = (Inr \<lparr>status = 304, headers_out = [], body = None\<rparr>, w3)
         \<and> (\<exists>k. 0 < k \<and> r2_calls w3 = r2_calls w2 @ replicate k (get_call key
                    (Some (if_none_match_options pf request (if_range pf request file range0)))))
         \<and> (truthy_str (ifNoneMatch_of request) \<longrightarrow>
               onlyIf (if_none_match_options pf request (if_range pf request file range0))
                 = Some \<lparr>etagMatches = None, etagDoesNotMatch = ifNoneMatch_of request,
                         uploadedBefore = None, uploadedAfter = None\<rparr>)"
proof -
  have stage: "if_none_match_stage pf request env key file1 (if_range pf request file range0) w2
                 = (Returns (new_Response None 304 []), w3)"
    using hdr cond nobody by (simp add: if_none_match_stage_def)
  have "negotiate pf request env (console_log env (CacheMISS (url request)) w)
          = (Returns (new_Response None 304 []), w3)"
    by (simp add: negotiate_def key rh st1 stage)
  then have "pipeline pf request env w = (Inr (new_Response None 304 []), w3)"
    by (simp add: pipeline_def)
  moreover from retryAsync_trace [OF cond]
  have "\<exists>k. 0 < k \<and> r2_calls w3 = r2_calls w2 @ replicate k (get_call key
                    (Some (if_none_match_options pf request (if_range pf request file range0))))"
    by auto
  ultimately show ?thesis
    using fetch_miss [OF m miss] by (simp add: new_Response_def if_none_match_options_def)
qed

text \<open>
  Claim C2, at the input where the code departs from it. \<open>If-Modified-Since\<close> with the date of
  the epoch parses to the time value 0, which the test \<open>ifNoneMatch || ifModifiedSince\<close>
  takes for false: no conditional \<open>get\<close> is issued, the only bucket call is the
  unconditional one.
\<close>

theorem epoch_if_modified_since_skipped:
  "headers_get epoch_request ''if-modified-since'' = Some ''Thu, 01 Jan 1970 00:00:00 GMT''
   \<and> ifModifiedSince_of sample_platform epoch_request = Some 0
   \<and> r2_calls (snd (fetch sample_platform epoch_request sample_env world0))
       = [get_call ''secureblue-keyring.gpg'' (Some \<lparr>onlyIf = None, range_opt = None\<rparr>)]"
  by code_simp


subsection \<open>Status selection\<close>







lemma fetch_respond:
  assumes m: "method_name request = ''GET'' \<or> method_name request = ''HEAD''"
    and miss: "cache_miss request env w"
    and neg: "negotiate pf request env (console_log env (CacheMISS (url request)) w)
                = (Continues (key, file, rng), w1)"
  shows "fetch pf request env w = respond pf request env key file rng w1"
  using fetch_miss [OF m miss] neg by (simp add: pipeline_def)








subsection \<open>The declared length and the body\<close>

lemma length_FixedLengthStream: "length (FixedLengthStream n bs) = nat n"
  by (simp add: FixedLengthStream_def)

lemma contentLength_of_declared:
  assumes "hasBody f" and "size_bytes f \<noteq> 0"
  shows "contentLength_of f rng nf = declared_length f rng nf"
proof (cases rng)
  case None
  with assms show ?thesis
    by (simp add: contentLength_of_def declared_length_def)
next
  case (Some r)
  with assms show ?thesis
    by (cases r) (simp_all add: contentLength_of_def declared_length_def)
qed

lemma assemble_length:
  assumes "body_stream f = Some stream" "size_bytes f \<noteq> 0" "0 \<le> declared_length f rng nf"
  shows "header_out (assemble pf env key f rng nf) ''content-length''
           = Some (toString (declared_length f rng nf))
         \<and> body (assemble pf env key f rng nf)
             = Some (FixedLengthStream (declared_length f rng nf) stream)
         \<and> int (length (FixedLengthStream (declared_length f rng nf) stream))
             = declared_length f rng nf"
  using assms
  by (simp add: assemble_def new_Response_def header_out_def body_of_def hasBody_def
        contentLength_of_declared length_FixedLengthStream)

text \<open>
  Claim C7. For a response built from an object that has a body and is not empty, the
  \<open>content-length\<close> header is the length (or suffix) of the range in force when this is
  not the fallback path, and the size of the object otherwise (no range, or the fallback
  object); the body handed to the response is the object's own stream cut to that length
  or filled up to it, so it has exactly the declared length. The declared length is taken
  to be non-negative, as sizes and range lengths are. The instances after it are a ranged
  response, the fallback object, and an object that streams more and one that streams
  fewer bytes than it declares.
\<close>

theorem content_length_discipline:
  assumes m: "method_name request = ''GET'' \<or> method_name request = ''HEAD''"
    and miss: "cache_miss request env w"
    and neg: "negotiate pf request env (console_log env (CacheMISS (url request)) w)
                = (Continues (key, file, rng), w1)"
    and ff: "final_fetch request env key file rng w1 = (Inr found, w2)"
  shows "(found = Some f \<and> body_stream f = Some stream \<and> size_bytes f \<noteq> 0
            \<and> d = (case rng of None \<Rightarrow> size_bytes f | Some r \<Rightarrow> range_length r) \<and> 0 \<le> d \<longrightarrow>
            (\<exists>response w_c. fetch pf request env w = (Inr response, w_c)
               \<and> header_out response ''content-length'' = Some (toString d)
               \<and> body response = Some (FixedLengthStream d stream)
               \<and> FixedLengthStream d stream
                   = take (nat d) stream @ replicate (nat d - length stream) (CHR 0x00)
               \<and> int (length (FixedLengthStream d stream)) = d))
       \<and> (found = None \<and> truthy_str (NOTFOUND_FILE env)
            \<and> fallback_fetch request env (or_empty (NOTFOUND_FILE env)) w2 = (Inr (Some fb), w_b)
            \<and> body_stream fb = Some stream_b \<and> size_bytes fb \<noteq> 0
            \<and> d_b = size_bytes fb \<and> 0 \<le> d_b \<longrightarrow>
            (\<exists>response. fetch pf request env w = (Inr response, w_b)
               \<and> header_out response ''content-length'' = Some (toString d_b)
               \<and> body response = Some (FixedLengthStream d_b stream_b)
               \<and> FixedLengthStream d_b stream_b
                   = take (nat d_b) stream_b @ replicate (nat d_b - length stream_b) (CHR 0x00)
               \<and> int (length (FixedLengthStream d_b stream_b)) = d_b))"
proof (intro conjI impI)
  note run = fetch_respond [OF m miss neg]
  {
    assume h: "found = Some f \<and> body_stream f = Some stream \<and> size_bytes f \<noteq> 0
            \<and> d = (case rng of None \<Rightarrow> size_bytes f | Some r \<Rightarrow> range_length r) \<and> 0 \<le> d"
    have d: "declared_length f rng False = d"
      using h by (simp add: declared_length_def split: option.splits)
    have "fetch pf request env w
            = (Inr (assemble pf env key f rng False), snd (finish pf request env key f rng False w2))"
      using run ff h by (simp add: respond_def finish_def Let_def)
    moreover from assemble_length [of f stream rng False pf env key] h
    have "header_out (assemble pf env key f rng False) ''content-length'' = Some (toString d)
         \<and> body (assemble pf env key f rng False) = Some (FixedLengthStream d stream)
         \<and> int (length (FixedLengthStream d stream)) = d"
      by (simp add: d)
    moreover have "FixedLengthStream d stream
                   = take (nat d) stream @ replicate (nat d - length stream) (CHR 0x00)"
      by (simp add: FixedLengthStream_def)
    ultimately show "\<exists>response w_c. fetch pf request env w = (Inr response, w_c)
               \<and> header_out response ''content-length'' = Some (toString d)
               \<and> body response = Some (FixedLengthStream d stream)
               \<and> FixedLengthStream d stream
                   = take (nat d) stream @ replicate (nat d - length stream) (CHR 0x00)
               \<and> int (length (FixedLengthStream d stream)) = d"
      by blast
  }
  {
    assume h: "found = None \<and> truthy_str (NOTFOUND_FILE env)
            \<and> fallback_fetch request env (or_empty (NOTFOUND_FILE env)) w2 = (Inr (Some fb), w_b)
            \<and> body_stream fb = Some stream_b \<and> size_bytes fb \<noteq> 0
            \<and> d_b = size_bytes fb \<and> 0 \<le> d_b"
    have d: "declared_length fb rng True = d_b"
      using h by (simp add: declared_length_def split: option.splits)
    have "fetch pf request env w = (Inr (assemble pf env key fb rng True), w_b)"
      using run ff h by (simp add: respond_def finish_def)
    moreover from assemble_length [of fb stream_b rng True pf env key] h
    have "header_out (assemble pf env key fb rng True) ''content-length'' = Some (toString d_b)
         \<and> body (assemble pf env key fb rng True) = Some (FixedLengthStream d_b stream_b)
         \<and> int (length (FixedLengthStream d_b stream_b)) = d_b"
      by (simp add: d)
    moreover have "FixedLengthStream d_b stream_b
                   = take (nat d_b) stream_b @ replicate (nat d_b - length stream_b) (CHR 0x00)"
      by (simp add: FixedLengthStream_def)
    ultimately show "\<exists>response. fetch pf request env w = (Inr response, w_b)
               \<and> header_out response ''content-length'' = Some (toString d_b)
               \<and> body response = Some (FixedLengthStream d_b stream_b)
               \<and> FixedLengthStream d_b stream_b
                   = take (nat d_b) stream_b @ replicate (nat d_b - length stream_b) (CHR 0x00)
               \<and> int (length (FixedLengthStream d_b stream_b)) = d_b"
      by blast
  }
qed

theorem content_length_discipline_witness:
  "(\<exists>response w. fetch sample_platform tail_request sample_env world0 = (Inr response, w)
      \<and> header_out response ''content-length'' = Some ''100''
      \<and> body response = Some (FixedLengthStream 100 (slice (Some (Suffix 100)) keyring_content)))
   \<and> (\<exists>response. fetch sample_platform missing_request sample_env world0
          = (Inr response,
             world0\<lparr>r2_calls := [get_call ''secureblue-kde-nvidia-hardened-20240101.iso-CHECKSUM''
                                    (Some \<lparr>onlyIf = None, range_opt = None\<rparr>),
                                  get_call ''404.html'' None]\<rparr>)
      \<and> header_out response ''content-length'' = Some ''9''
      \<and> body response = Some ''not found'')
   \<and> (\<exists>response w. fetch sample_platform plain_request (drift_env ''abcdefgh'') world0 = (Inr response, w)
      \<and> header_out response ''content-length'' = Some ''5''
      \<and> body response = Some (''abcde''))
   \<and> (\<exists>response w. fetch sample_platform plain_request (drift_env ''abc'') world0 = (Inr response, w)
      \<and> header_out response ''content-length'' = Some ''5''
      \<and> body response = Some (''abc'' @ [CHR 0x00, CHR 0x00]))"
proof -
  have m2: "method_name tail_request = ''GET'' \<or> method_name tail_request = ''HEAD''"
    by code_simp
  have miss2: "cache_miss tail_request sample_env world0"
    by code_simp
  have neg2: "negotiate sample_platform tail_request sample_env
               (console_log sample_env (CacheMISS (url tail_request)) world0)
             = (Continues (''secureblue-keyring.gpg'', (Some keyring_object), (Some (Suffix 100))), (world0\<lparr>r2_calls := [head_call ''secureblue-keyring.gpg'']\<rparr>))"
    by code_simp
  have ff2: "final_fetch tail_request sample_env ''secureblue-keyring.gpg'' (Some keyring_object) (Some (Suffix 100)) (world0\<lparr>r2_calls := [head_call ''secureblue-keyring.gpg'']\<rparr>)
               = (Inr (Some keyring_tail), (world0\<lparr>r2_calls := [head_call ''secureblue-keyring.gpg'', get_call ''secureblue-keyring.gpg'' (Some \<lparr>onlyIf = None, range_opt = Some (Suffix 100)\<rparr>)]\<rparr>))"
    by code_simp
  have ante2: "Some keyring_tail = Some keyring_tail
            \<and> body_stream keyring_tail = Some (slice (Some (Suffix 100)) keyring_content)
            \<and> size_bytes keyring_tail \<noteq> 0
            \<and> 100 = (case (Some (Suffix 100)) of None \<Rightarrow> size_bytes keyring_tail | Some r \<Rightarrow> range_length r)
            \<and> (0::int) \<le> 100"
    by (simp add: keyring_tail_def keyring_object_def)
  have out2: "toString 100 = ''100''"
    by code_simp
  from content_length_discipline [OF m2 miss2 neg2 ff2, where f = "keyring_tail"
      and stream = "(slice (Some (Suffix 100)) keyring_content)" and d = 100,
      THEN conjunct1, THEN mp, OF ante2]
  obtain response2 w2 where r2:
    "fetch sample_platform tail_request sample_env world0 = (Inr response2, w2)"
    "header_out response2 ''content-length'' = Some (toString 100)"
    "body response2 = Some (FixedLengthStream 100 (slice (Some (Suffix 100)) keyring_content))"
    by blast
  from r2(2) have "header_out response2 ''content-length'' = Some ''100''"
    by (simp only: out2)
  with r2(1,3) have b: "\<exists>response w. fetch sample_platform tail_request sample_env world0 = (Inr response, w)
      \<and> header_out response ''content-length'' = Some ''100''
      \<and> body response = Some (FixedLengthStream 100 (slice (Some (Suffix 100)) keyring_content))"
    by blast

  let ?key = "''secureblue-kde-nvidia-hardened-20240101.iso-CHECKSUM''"
  let ?w2 = "world0\<lparr>r2_calls := [get_call ?key (Some \<lparr>onlyIf = None, range_opt = None\<rparr>)]\<rparr>"
  let ?w3 = "world0\<lparr>r2_calls := [get_call ?key (Some \<lparr>onlyIf = None, range_opt = None\<rparr>),
                                  get_call ''404.html'' None]\<rparr>"
  have m3: "method_name missing_request = ''GET'' \<or> method_name missing_request = ''HEAD''"
    by code_simp
  have miss3: "cache_miss missing_request sample_env world0"
    by code_simp
  have neg3: "negotiate sample_platform missing_request sample_env
               (console_log sample_env (CacheMISS (url missing_request)) world0)
             = (Continues (?key, None, None), world0)"
    by code_simp
  have ff3: "final_fetch missing_request sample_env ?key None None world0 = (Inr None, ?w2)"
    by code_simp
  have ante3: "(None :: R2Object option) = None \<and> truthy_str (NOTFOUND_FILE sample_env)
            \<and> fallback_fetch missing_request sample_env (or_empty (NOTFOUND_FILE sample_env)) ?w2
                = (Inr (Some notfound_whole), ?w3)
            \<and> body_stream notfound_whole = Some ''not found'' \<and> size_bytes notfound_whole \<noteq> 0
            \<and> 9 = size_bytes notfound_whole \<and> (0::int) \<le> 9"
    by code_simp
  have out3: "toString 9 = ''9''" "FixedLengthStream 9 ''not found'' = ''not found''"
    by code_simp+
  from content_length_discipline [OF m3 miss3 neg3 ff3, where fb = notfound_whole and w_b = ?w3
      and stream_b = "''not found''" and d_b = 9, THEN conjunct2, THEN mp, OF ante3]
  obtain response3 where r3:
    "fetch sample_platform missing_request sample_env world0 = (Inr response3, ?w3)"
    "header_out response3 ''content-length'' = Some (toString 9)"
    "body response3 = Some (FixedLengthStream 9 ''not found'')"
    by blast
  from r3(2,3) have "header_out response3 ''content-length'' = Some ''9''"
    "body response3 = Some ''not found''"
    by (simp_all only: out3)
  with r3(1) have c: "\<exists>response. fetch sample_platform missing_request sample_env world0
          = (Inr response, ?w3)
      \<and> header_out response ''content-length'' = Some ''9''
      \<and> body response = Some ''not found''"
    by blast

  have m4: "method_name plain_request = ''GET'' \<or> method_name plain_request = ''HEAD''"
    by code_simp
  have miss4: "cache_miss plain_request (drift_env ''abcdefgh'') world0"
    by code_simp
  have neg4: "negotiate sample_platform plain_request (drift_env ''abcdefgh'')
               (console_log (drift_env ''abcdefgh'') (CacheMISS (url plain_request)) world0)
             = (Continues (''secureblue-keyring.gpg'', None, None), world0)"
    by code_simp
  have ff4: "final_fetch plain_request (drift_env ''abcdefgh'') ''secureblue-keyring.gpg'' None None world0
               = (Inr (Some (drift_object ''abcdefgh'')), (world0\<lparr>r2_calls := [get_call ''secureblue-keyring.gpg'' (Some \<lparr>onlyIf = None, range_opt = None\<rparr>)]\<rparr>))"
    by code_simp
  have ante4: "Some (drift_object ''abcdefgh'') = Some (drift_object ''abcdefgh'') \<and> body_stream (drift_object ''abcdefgh'') = Some ''abcdefgh''
            \<and> size_bytes (drift_object ''abcdefgh'') \<noteq> 0
            \<and> 5 = (case None of None \<Rightarrow> size_bytes (drift_object ''abcdefgh'') | Some r \<Rightarrow> range_length r)
            \<and> (0::int) \<le> 5"
    by code_simp
  have out4: "toString 5 = ''5''" "FixedLengthStream 5 ''abcdefgh'' = ''abcde''"
    by code_simp+
  from content_length_discipline [OF m4 miss4 neg4 ff4, where f = "(drift_object ''abcdefgh'')"
      and stream = "''abcdefgh''" and d = 5, THEN conjunct1, THEN mp, OF ante4]
  obtain response4 w4 where r4:
    "fetch sample_platform plain_request (drift_env ''abcdefgh'') world0 = (Inr response4, w4)"
    "header_out response4 ''content-length'' = Some (toString 5)"
    "body response4 = Some (FixedLengthStream 5 ''abcdefgh'')"
    by blast
  from r4(2,3) have "header_out response4 ''content-length'' = Some ''5''"
    "body response4 = Some (''abcde'')"
    by (simp_all only: out4)
  with r4(1) have d: "\<exists>response w. fetch sample_platform plain_request (drift_env ''abcdefgh'') world0 = (Inr response, w)
      \<and> header_out response ''content-length'' = Some ''5''
      \<and> body response = Some (''abcde'')"
    by blast

  have m5: "method_name plain_request = ''GET'' \<or> method_name plain_request = ''HEAD''"
    by code_simp
  have miss5: "cache_miss plain_request (drift_env ''abc'') world0"
    by code_simp
  have neg5: "negotiate sample_platform plain_request (drift_env ''abc'')
               (console_log (drift_env ''abc'') (CacheMISS (url plain_request)) world0)
             = (Continues (''secureblue-keyring.gpg'', None, None), world0)"
    by code_simp
  have ff5: "final_fetch plain_request (drift_env ''abc'') ''secureblue-keyring.gpg'' None None world0
               = (Inr (Some (drift_object ''abc'')), (world0\<lparr>r2_calls := [get_call ''secureblue-keyring.gpg'' (Some \<lparr>onlyIf = None, range_opt = None\<rparr>)]\<rparr>))"
    by code_simp
  have ante5: "Some (drift_object ''abc'') = Some (drift_object ''abc'') \<and> body_stream (drift_object ''abc'') = Some ''abc''
            \<and> size_bytes (drift_object ''abc'') \<noteq> 0
            \<and> 5 = (case None of None \<Rightarrow> size_bytes (drift_object ''abc'') | Some r \<Rightarrow> range_length r)
            \<and> (0::int) \<le> 5"
    by code_simp
  have out5: "toString 5 = ''5''" "FixedLengthStream 5 ''abc'' = ''abc'' @ [CHR 0x00, CHR 0x00]"
    by code_simp+
  from content_length_discipline [OF m5 miss5 neg5 ff5, where f = "(drift_object ''abc'')"
      and stream = "''abc''" and d = 5, THEN conjunct1, THEN mp, OF ante5]
  obtain response5 w5 where r5:
    "fetch sample_platform plain_request (drift_env ''abc'') world0 = (Inr response5, w5)"
    "header_out response5 ''content-length'' = Some (toString 5)"
    "body response5 = Some (FixedLengthStream 5 ''abc'')"
    by blast
  from r5(2,3) have "header_out response5 ''content-length'' = Some ''5''"
    "body response5 = Some (''abc'' @ [CHR 0x00, CHR 0x00])"
    by (simp_all only: out5)
  with r5(1) have e: "\<exists>response w. fetch sample_platform plain_request (drift_env ''abc'') world0 = (Inr response, w)
      \<and> header_out response ''content-length'' = Some ''5''
      \<and> body response = Some (''abc'' @ [CHR 0x00, CHR 0x00])"
    by blast

  from b c d e show ?thesis
    by (intro conjI)
qed

subsection \<open>Empty objects\<close>




subsection \<open>The edge cache\<close>

lemma r2_calls_cache_put [simp]: "r2_calls (cache_put rq rs w) = r2_calls w"
  by (simp add: cache_put_def)

lemma r2_calls_foldl_put:
  "r2_calls (foldl (\<lambda>v (rq, rs). cache_put rq rs v) w xs) = r2_calls w"
  by (induction xs arbitrary: w) (auto split: prod.splits)

lemma r2_calls_settle: "r2_calls (settle w) = r2_calls w"
  by (simp add: settle_def r2_calls_foldl_put)

lemma settle_last_put:
  assumes "waitUntil w = ws @ [(request, response)]"
  shows "cache_match (settle w) request = Some response"
  using assms by (simp add: settle_def cache_match_def cache_put_def)

lemma resolve_key_status:
  "resolve_key env u = Inl response \<Longrightarrow> status response \<noteq> 200"
  by (auto simp: resolve_key_def new_Response_def Let_def split: if_splits)

lemma range_handling_status:
  "range_handling pf request env key w = (Returns response, w1) \<Longrightarrow> status response \<noteq> 200"
  by (auto simp: range_handling_def new_Response_def
      split: if_splits prod.splits sum.splits option.splits)

lemma if_match_stage_status:
  "if_match_stage pf request env key file rng w = (Returns response, w1) \<Longrightarrow> status response = 412"
  by (auto simp: if_match_stage_def new_Response_def
      split: if_splits prod.splits sum.splits option.splits)

lemma if_none_match_stage_status:
  "if_none_match_stage pf request env key file rng w = (Returns response, w1)
     \<Longrightarrow> status response = 304"
  by (auto simp: if_none_match_stage_def new_Response_def
      split: if_splits prod.splits sum.splits option.splits)

lemma negotiate_returns_status:
  assumes "negotiate pf request env w = (Returns response, w1)"
  shows "status response \<noteq> 200"
proof (cases "resolve_key env (url request)")
  case (Inl r)
  with assms show ?thesis
    by (auto simp: negotiate_def dest: resolve_key_status)
next
  case (Inr key)
  obtain a wa where rh: "range_handling pf request env key w = (a, wa)"
    by (cases "range_handling pf request env key w")
  show ?thesis
  proof (cases a)
    case (Throws err)
    with assms Inr rh show ?thesis by (simp add: negotiate_def)
  next
    case (Returns r)
    with assms Inr rh show ?thesis
      by (auto simp: negotiate_def dest: range_handling_status)
  next
    case (Continues x)
    obtain f0 r0 where x: "x = (f0, r0)" by (cases x)
    obtain b wb where st1: "if_match_stage pf request env key f0 (if_range pf request f0 r0) wa = (b, wb)"
      by (cases "if_match_stage pf request env key f0 (if_range pf request f0 r0) wa")
    show ?thesis
    proof (cases b)
      case (Throws err)
      with assms Inr rh Continues x st1 show ?thesis by (simp add: negotiate_def)
    next
      case (Returns r)
      with assms Inr rh Continues x st1 have "r = response" by (simp add: negotiate_def)
      with st1 Returns show ?thesis by (auto dest: if_match_stage_status)
    next
      case c1: (Continues f1)
      obtain c wc where st2: "if_none_match_stage pf request env key f1 (if_range pf request f0 r0) wb = (c, wc)"
        by (cases "if_none_match_stage pf request env key f1 (if_range pf request f0 r0) wb")
      show ?thesis
      proof (cases c)
        case (Throws err)
        with assms Inr rh Continues x st1 c1 st2 show ?thesis by (simp add: negotiate_def)
      next
        case (Returns r)
        with assms Inr rh Continues x st1 c1 st2 have "r = response" by (simp add: negotiate_def)
        with st2 Returns show ?thesis by (auto dest: if_none_match_stage_status)
      next
        case (Continues f2)
        with assms Inr rh \<open>a = Continues x\<close> x st1 c1 st2 show ?thesis by (simp add: negotiate_def)
      qed
    qed
  qed
qed

lemma respond_200_put:
  assumes "method_name request = ''GET''" and "isCachingEnabled env"
    and "respond pf request env key file rng w = (Inr response, w1)"
    and "status response = 200"
  shows "\<exists>ws. waitUntil w1 = ws @ [(request, response)]"
  using assms
  by (auto simp: respond_def finish_def assemble_def new_Response_def Let_def
      split: sum.splits prod.splits option.splits if_splits)

lemma pipeline_200_put:
  assumes m: "method_name request = ''GET''" and on: "isCachingEnabled env"
    and run: "pipeline pf request env w = (Inr response, w1)"
    and st: "status response = 200"
  shows "\<exists>ws. waitUntil w1 = ws @ [(request, response)]"
proof -
  obtain fl w0 where neg: "negotiate pf request env (console_log env (CacheMISS (url request)) w) = (fl, w0)"
    by (cases "negotiate pf request env (console_log env (CacheMISS (url request)) w)")
  show ?thesis
  proof (cases fl)
    case (Throws err)
    with run neg show ?thesis by (simp add: pipeline_def)
  next
    case (Returns r)
    with run neg have "r = response" by (simp add: pipeline_def)
    with neg Returns st show ?thesis by (auto dest: negotiate_returns_status)
  next
    case (Continues x)
    obtain k fl0 r0 where "x = (k, fl0, r0)" by (cases x)
    with run neg Continues have "respond pf request env k fl0 r0 w0 = (Inr response, w1)"
      by (simp add: pipeline_def)
    from respond_200_put [OF m on this st] show ?thesis .
  qed
qed

text \<open>
  Claim C9. With caching enabled, a GET that misses the cache and is answered 200 (the
  status of the whole-object responses that are not the fallback) leaves its response for
  the cache; once the host has completed that write, the same GET is answered from the
  cache with the very same response and without any bucket call. A cached response whose
  status is neither successful nor 304 is ignored: the request runs through the pipeline.
\<close>

theorem cache_round_trip:
  assumes m: "method_name request = ''GET''" and on: "isCachingEnabled env"
  shows "(cache_miss request env w \<and> fetch pf request env w = (Inr response, w1)
            \<and> status response = 200 \<longrightarrow>
            fetch pf request env (settle w1)
              = (Inr response, console_log env (CacheHIT (url request)) (settle w1))
            \<and> r2_calls (console_log env (CacheHIT (url request)) (settle w1)) = r2_calls w1)
       \<and> (cached request env w = Some stale \<and> \<not> ok stale \<and> status stale \<noteq> 304 \<longrightarrow>
            fetch pf request env w = pipeline pf request env w)"
proof (intro conjI impI)
  assume h: "cache_miss request env w \<and> fetch pf request env w = (Inr response, w1)
            \<and> status response = 200"
  have "pipeline pf request env w = (Inr response, w1)"
    using h m fetch_miss [of request env w pf] by simp
  with m on h obtain ws where "waitUntil w1 = ws @ [(request, response)]"
    using pipeline_200_put by blast
  then have "cache_match (settle w1) request = Some response"
    by (rule settle_last_put)
  then have "cached request env (settle w1) = Some response"
    using on by (simp add: cached_def)
  then show "fetch pf request env (settle w1)
              = (Inr response, console_log env (CacheHIT (url request)) (settle w1))"
    using m h by (simp add: fetch_def allowedMethods_def ok_def)
  show "r2_calls (console_log env (CacheHIT (url request)) (settle w1)) = r2_calls w1"
    by (simp add: r2_calls_settle)
next
  assume "cached request env w = Some stale \<and> \<not> ok stale \<and> status stale \<noteq> 304"
  then have "cache_miss request env w"
    by (simp add: cache_miss_def)
  with m show "fetch pf request env w = pipeline pf request env w"
    by (simp add: fetch_miss)
qed

theorem cache_round_trip_witness:
  "fetch sample_platform plain_request sample_env (settle plain_world)
     = (Inr plain_response, console_log sample_env (CacheHIT (url plain_request)) (settle plain_world))
   \<and> r2_calls (console_log sample_env (CacheHIT (url plain_request)) (settle plain_world))
       = r2_calls plain_world
   \<and> fetch sample_platform plain_request sample_env stale_world
       = pipeline sample_platform plain_request sample_env stale_world"
proof -
  have m: "method_name plain_request = ''GET''"
    by code_simp
  have on: "isCachingEnabled sample_env"
    by code_simp
  have miss: "cache_miss plain_request sample_env world0"
    by code_simp
  have run: "fetch sample_platform plain_request sample_env world0 = (Inr plain_response, plain_world)"
    by code_simp
  have st: "status plain_response = 200"
    by code_simp
  have stale: "cached plain_request sample_env stale_world
                 = Some (new_Response (Some ''Bad Gateway'') 502 [])"
    by code_simp
  have bad: "\<not> ok (new_Response (Some ''Bad Gateway'') 502 [])"
    "status (new_Response (Some ''Bad Gateway'') 502 []) \<noteq> 304"
    by code_simp+
  note inst = cache_round_trip [OF m on, where pf = sample_platform]
  from inst [where w = world0 and response = plain_response and ?w1.0 = plain_world, THEN conjunct1]
    miss run st
  have first: "fetch sample_platform plain_request sample_env (settle plain_world)
     = (Inr plain_response, console_log sample_env (CacheHIT (url plain_request)) (settle plain_world))
   \<and> r2_calls (console_log sample_env (CacheHIT (url plain_request)) (settle plain_world))
       = r2_calls plain_world"
    by blast
  from inst [where w = stale_world and stale = "new_Response (Some ''Bad Gateway'') 502 []",
      THEN conjunct2] stale bad
  have second: "fetch sample_platform plain_request sample_env stale_world
       = pipeline sample_platform plain_request sample_env stale_world"
    by blast
  from first second show ?thesis
    by blast
qed

end
